theory Spec2Isabelle
  imports Main "HOL-Library.Word" "HOL-Library.Signed_Division"
begin

section \<open>Data model\<close>

text \<open>
  Go strings are byte sequences: \<^typ>\<open>string\<close> (a list of 8-bit characters), so that
  \<^term>\<open>length\<close> is Go's \<open>len\<close>. Go's \<open>int\<close> is the 64-bit two's complement
  integer of the usual platforms: \<open>+\<close> wraps around.
\<close>

type_synonym go_int = "64 word"

text \<open>
  The types of the package (part_000, lines 3-95): \<open>Message\<close>, \<open>Usage\<close>,
  \<open>ThinkFormat\<close> with its three predefined values, \<open>Settings\<close>.
\<close>

record Message =
  Role :: string
  Content :: string

record Usage =
  InputTokens :: go_int
  OutputTokens :: go_int

record ThinkFormat =
  UserSuffix :: string
  AssistantPrefix :: string

definition ThinkFormatGLM46 :: ThinkFormat where
  "ThinkFormatGLM46 = \<lparr>UserSuffix = ''/nothink'', AssistantPrefix = ''</think>'' @ [CHR 0x0A]\<rparr>"

definition ThinkFormatGLM47 :: ThinkFormat where
  "ThinkFormatGLM47 = \<lparr>UserSuffix = ''/nothink'', AssistantPrefix = ''</think>''\<rparr>"

definition ThinkFormatNone :: ThinkFormat where
  "ThinkFormatNone = \<lparr>UserSuffix = [], AssistantPrefix = []\<rparr>"

text \<open>
  The \<open>float64\<close> settings are only compared with zero and copied into the request, so
  their type is the parameter \<open>'f\<close> (with a zero). The pointer \<open>ThinkFormat\<close> is an
  option, \<open>nil\<close> being \<^term>\<open>None\<close>.
\<close>

record 'f Settings =
  Model :: string
  MaxTokens :: go_int
  Temperature :: 'f
  TopP :: 'f
  TopK :: go_int
  MinP :: 'f
  FrequencyPenalty :: 'f
  PresencePenalty :: 'f
  RepetitionPenalty :: 'f
  StopSequences :: "string list"
  Thinking :: bool
  ThinkFormat :: "ThinkFormat option"

text \<open>
  \<open>Conversation\<close> (part_002, lines 42-57). The field \<open>HttpClient\<close> is the transport
  of the environment below; \<open>Tools\<close> is stored and read by its accessors only and is
  left out.
\<close>

record 'f Conversation =
  System :: string
  Messages :: "Message list"
  Usage :: Usage
  ApiToken :: string
  Settings :: "'f Settings"

section \<open>String functions of the Go library\<close>

text \<open>
  \<open>strings.TrimRight(s, cutset)\<close> for a cutset of ASCII characters removes the trailing
  bytes that are in the cutset.
\<close>

definition TrimRight :: "string \<Rightarrow> string \<Rightarrow> string" where
  "TrimRight s cutset = rev (dropWhile (\<lambda>ch. ch \<in> set cutset) (rev s))"

text \<open>
  \<open>strings.TrimSpace\<close> removes the leading and the trailing white space, as
  \<open>unicode.IsSpace\<close> defines it, from a UTF-8 string: the six ASCII characters tab, line
  feed, vertical tab, form feed, carriage return and space, and the code points U+0085,
  U+00A0, U+1680, U+2000 to U+200A, U+2028, U+2029, U+202F, U+205F and U+3000, here by
  their UTF-8 encodings.
\<close>

definition unicodeSpace :: "string list" where
  "unicodeSpace =
     [[CHR 0x09], [CHR 0x0A], [CHR 0x0B], [CHR 0x0C], [CHR 0x0D], [CHR 0x20],
      [CHR 0xC2, CHR 0x85], [CHR 0xC2, CHR 0xA0], [CHR 0xE1, CHR 0x9A, CHR 0x80],
      [CHR 0xE2, CHR 0x80, CHR 0x80], [CHR 0xE2, CHR 0x80, CHR 0x81],
      [CHR 0xE2, CHR 0x80, CHR 0x82], [CHR 0xE2, CHR 0x80, CHR 0x83],
      [CHR 0xE2, CHR 0x80, CHR 0x84], [CHR 0xE2, CHR 0x80, CHR 0x85],
      [CHR 0xE2, CHR 0x80, CHR 0x86], [CHR 0xE2, CHR 0x80, CHR 0x87],
      [CHR 0xE2, CHR 0x80, CHR 0x88], [CHR 0xE2, CHR 0x80, CHR 0x89],
      [CHR 0xE2, CHR 0x80, CHR 0x8A], [CHR 0xE2, CHR 0x80, CHR 0xA8],
      [CHR 0xE2, CHR 0x80, CHR 0xA9], [CHR 0xE2, CHR 0x80, CHR 0xAF],
      [CHR 0xE2, CHR 0x81, CHR 0x9F], [CHR 0xE3, CHR 0x80, CHR 0x80]]"

text \<open>The width of the white space that \<open>s\<close> starts with, 0 when it starts with none.\<close>

definition spaceWidth :: "string list \<Rightarrow> string \<Rightarrow> nat" where
  "spaceWidth encs s =
     (case filter (\<lambda>w. w \<noteq> [] \<and> take (length w) s = w) encs of
        [] \<Rightarrow> 0
      | w # _ \<Rightarrow> length w)"

lemma spaceWidth_le: "spaceWidth encs s \<le> length s"
proof (cases "filter (\<lambda>w. w \<noteq> [] \<and> take (length w) s = w) encs")
  case Nil
  then show ?thesis by (simp add: spaceWidth_def)
next
  case (Cons w ws)
  then have "w \<in> set (filter (\<lambda>w. w \<noteq> [] \<and> take (length w) s = w) encs)"
    by simp
  then have "take (length w) s = w" by simp
  then have "length w \<le> length s"
    by (metis length_take min.cobounded1)
  with Cons show ?thesis by (simp add: spaceWidth_def)
qed

function trimLeftSpace :: "string list \<Rightarrow> string \<Rightarrow> string" where
  "trimLeftSpace encs s =
     (if spaceWidth encs s = 0 then s else trimLeftSpace encs (drop (spaceWidth encs s) s))"
  by pat_completeness auto
termination
proof (relation "measure (\<lambda>(encs, s). length s)")
  show "wf (measure (\<lambda>(encs, s). length s))" by simp
next
  fix encs :: "string list" and s :: string
  assume "spaceWidth encs s \<noteq> 0"
  moreover have "spaceWidth encs s \<le> length s" by (rule spaceWidth_le)
  ultimately show "((encs, drop (spaceWidth encs s) s), (encs, s)) \<in> measure (\<lambda>(encs, s). length s)"
    by simp
qed

declare trimLeftSpace.simps [simp del]

definition TrimSpace :: "string \<Rightarrow> string" where
  "TrimSpace s = rev (trimLeftSpace (map rev unicodeSpace) (rev (trimLeftSpace unicodeSpace s)))"

section \<open>Conversation state: the merge of a trailing pair of assistant turns\<close>

text \<open>The cutset of \<open>MergeIfLastTwoAssistant\<close>: space, tab, line feed, carriage return.\<close>

definition mergeCutset :: string where
  "mergeCutset = [CHR 0x20, CHR 0x09, CHR 0x0A, CHR 0x0D]"

text \<open>
  \<open>MergeIfLastTwoAssistant\<close> (part_002, lines 322-341), on the conversation it mutates.
\<close>

definition MergeIfLastTwoAssistant :: "'f Conversation \<Rightarrow> 'f Conversation" where
  "MergeIfLastTwoAssistant c =
     (if length (Messages c) < 2 then c
      else
        let lastIdx = length (Messages c) - 1;
            secondLastIdx = lastIdx - 1
        in
          if Role (Messages c ! lastIdx) \<noteq> ''assistant'' \<or>
             Role (Messages c ! secondLastIdx) \<noteq> ''assistant''
          then c
          else
            let merged = TrimRight (Content (Messages c ! secondLastIdx)) mergeCutset
                         @ TrimSpace (Content (Messages c ! lastIdx))
            in c\<lparr>Messages :=
                   take lastIdx
                     ((Messages c)[secondLastIdx := (Messages c ! secondLastIdx)\<lparr>Content := merged\<rparr>])\<rparr>)"

text \<open>\<open>AddMessage\<close> (part_002, lines 344-346).\<close>

definition AddMessage :: "string \<Rightarrow> string \<Rightarrow> 'f Conversation \<Rightarrow> 'f Conversation" where
  "AddMessage role content c = c\<lparr>Messages := Messages c @ [\<lparr>Role = role, Content = content\<rparr>]\<rparr>"

section \<open>Stop reasons\<close>

text \<open>\<open>normalizeStopReason\<close> (part_002, lines 267-278).\<close>

definition normalizeStopReason :: "string \<Rightarrow> string" where
  "normalizeStopReason reason =
     (if reason = ''stop'' then ''end_turn''
      else if reason = ''length'' then ''max_tokens''
      else if reason = ''tool_calls'' then ''tool_use''
      else reason)"

section \<open>Prompt formatter\<close>

text \<open>
  The GLM special tokens (part_002, lines 33-39). \<open>nl\<close> is the line feed the formatter
  writes.
\<close>

definition glmPrefix :: string where "glmPrefix = ''[gMASK]<sop>''"
definition glmSystem :: string where "glmSystem = ''<|system|>''"
definition glmUser :: string where "glmUser = ''<|user|>''"
definition glmAssistant :: string where "glmAssistant = ''<|assistant|>''"
definition glmNoThink :: string where "glmNoThink = ''/nothink''"
definition nl :: string where "nl = [CHR 0x0A]"

text \<open>
  \<open>buildPrompt\<close> (part_002, lines 211-263). \<open>writeMessage\<close> is the \<open>switch msg.Role\<close> of the loop body,
  with no default case; \<open>writeMessages\<close> is the loop over \<open>c.Messages\<close>, \<open>n\<close> being
  \<open>len(c.Messages)\<close> and \<open>i\<close> the index; the string builder is the concatenation.
\<close>

definition writeMessage :: "bool \<Rightarrow> bool \<Rightarrow> Message \<Rightarrow> string" where
  "writeMessage thinking isLastMessage msg =
     (if Role msg = ''user'' then
        glmUser @ nl @ Content msg
        @ (if isLastMessage \<and> \<not> thinking then glmNoThink else [])
        @ nl
      else if Role msg = ''assistant'' then glmAssistant @ nl @ Content msg @ nl
      else if Role msg = ''system'' then glmSystem @ nl @ Content msg @ nl
      else [])"

fun writeMessages :: "bool \<Rightarrow> nat \<Rightarrow> nat \<Rightarrow> Message list \<Rightarrow> string" where
  "writeMessages thinking n i [] = []"
| "writeMessages thinking n i (msg # rest) =
     writeMessage thinking (int i = int n - 1) msg @ writeMessages thinking n (Suc i) rest"

definition buildPrompt :: "'f Conversation \<Rightarrow> string" where
  "buildPrompt c =
     glmPrefix
     @ (if System c \<noteq> [] then glmSystem @ nl @ System c @ nl else [])
     @ writeMessages (Thinking (Settings c)) (length (Messages c)) 0 (Messages c)
     @ glmAssistant @ nl
     @ (if \<not> Thinking (Settings c) then ''<think></think>'' @ nl else [])"

text \<open>
  The number of positions of \<open>s\<close> at which \<open>sub\<close> occurs (\<open>strings.Contains\<close> is
  \<open>0 < occurrences sub s\<close>).
\<close>

fun occurrences :: "string \<Rightarrow> string \<Rightarrow> nat" where
  "occurrences sub [] = (if sub = [] then 1 else 0)"
| "occurrences sub (ch # s) =
     (if take (length sub) (ch # s) = sub then 1 else 0) + occurrences sub s"

text \<open>The roles \<open>buildPrompt\<close> has a case for, and the token it writes for each.\<close>

definition knownRole :: "Message \<Rightarrow> bool" where
  "knownRole msg = (Role msg = ''user'' \<or> Role msg = ''assistant'' \<or> Role msg = ''system'')"

definition roleToken :: "string \<Rightarrow> string" where
  "roleToken role =
     (if role = ''user'' then glmUser else if role = ''assistant'' then glmAssistant else glmSystem)"

text \<open>What one message of a known role contributes to the prompt, at index \<open>i\<close> of \<open>n\<close>.\<close>

definition renderedTurn :: "bool \<Rightarrow> nat \<Rightarrow> nat \<times> Message \<Rightarrow> string" where
  "renderedTurn thinking n im =
     roleToken (Role (snd im)) @ nl @ Content (snd im)
     @ (if Role (snd im) = ''user'' \<and> Suc (fst im) = n \<and> \<not> thinking then glmNoThink else [])
     @ nl"

text \<open>Predicates on the end of a history, for the merge.\<close>

definition lastTwoAssistant :: "Message list \<Rightarrow> bool" where
  "lastTwoAssistant ms =
     (2 \<le> length ms \<and> Role (ms ! (length ms - 1)) = ''assistant'' \<and>
      Role (ms ! (length ms - 2)) = ''assistant'')"

definition lastThreeAssistant :: "Message list \<Rightarrow> bool" where
  "lastThreeAssistant ms =
     (3 \<le> length ms \<and> Role (ms ! (length ms - 1)) = ''assistant'' \<and>
      Role (ms ! (length ms - 2)) = ''assistant'' \<and> Role (ms ! (length ms - 3)) = ''assistant'')"

definition mergedContent :: "Message \<Rightarrow> Message \<Rightarrow> string" where
  "mergedContent a b = TrimRight (Content a) mergeCutset @ TrimSpace (Content b)"

section \<open>Wire types\<close>

text \<open>
  \<open>completionRequest\<close>, \<open>completionResponse\<close> and \<open>streamChunk\<close> (part_000, lines
  97-153), and the fields of \<open>llmapi.Sampling\<close> that \<open>Send\<close> reads. Fields whose names
  clash between the structs carry a prefix.
\<close>

record streamOptions =
  IncludeUsage :: bool

record 'f completionRequest =
  ReqModel :: string
  Prompt :: string
  ReqMaxTokens :: go_int
  ReqTemperature :: 'f
  ReqTopP :: 'f
  ReqTopK :: go_int
  ReqMinP :: 'f
  ReqFrequencyPenalty :: 'f
  ReqPresencePenalty :: 'f
  ReqRepetitionPenalty :: 'f
  Stream :: bool
  StreamOptions :: "streamOptions option"
  Stop :: "string list"

record tokenUsage =
  PromptTokens :: go_int
  CompletionTokens :: go_int
  TotalTokens :: go_int

record completionChoice =
  Index :: go_int
  Text :: string
  FinishReason :: string

record completionResponse =
  ID :: string
  Object :: string
  Created :: "64 word"
  RespModel :: string
  Choices :: "completionChoice list"
  RespUsage :: tokenUsage

text \<open>In a chunk \<open>finish_reason\<close> and \<open>usage\<close> are pointers: \<open>nil\<close> is \<^term>\<open>None\<close>.\<close>

record streamChoice =
  ChunkIndex :: go_int
  ChunkText :: string
  ChunkFinishReason :: "string option"

record streamChunk =
  ChunkID :: string
  ChunkObject :: string
  ChunkCreated :: "64 word"
  ChunkModel :: string
  ChunkChoices :: "streamChoice list"
  ChunkUsage :: "tokenUsage option"

record 'f Sampling =
  SamplingTemperature :: 'f
  SamplingTopP :: 'f
  SamplingTopK :: go_int

section \<open>Environment: transport and JSON\<close>

text \<open>
  The message of an error of the Go library (\<open>net/http\<close>, \<open>io\<close>, \<open>bufio\<close>) is a
  \<open>cause\<close>.
\<close>

type_synonym cause = string

text \<open>
  The errors of this package, by the format string of their \<open>fmt.Errorf\<close>. The last
  constructor is modelled from the spec: \<open>CancellationError\<close> is the error of its
  taxonomy (section 4.5) for an operation aborted by the signal of the caller; no
  function of the sources returns it.
\<close>

datatype error =
    ErrTokenNotSet
  | ErrNoMessages
  | ErrMarshal
  | ErrCreateRequest
  | ErrHTTPAfterRetries nat cause
  | ErrNilResponse
  | ErrReadResponse cause
  | ErrAPIStatus go_int string
  | ErrParseResponse
  | ErrNoChoices
  | ErrReadStream cause
  | CancellationError

record httpRequest =
  Method :: string
  URL :: string
  Header :: "(string \<times> string) list"
  ReqBody :: string

text \<open>
  The body of a response, as its two readers see it: \<open>io.ReadAll\<close> returns
  \<open>ReadAllBytes\<close> and the error \<open>ReadAllErr\<close>; a \<open>bufio.Scanner\<close> yields the lines
  \<open>ScanTokens\<close>, each with the value \<open>scanner.Err()\<close> has once \<open>Scan()\<close> has returned
  it, and \<open>ScanErr\<close> is \<open>scanner.Err()\<close> after \<open>Scan()\<close> has returned false. A line
  that does not fit the buffer of the scanner (64 KiB) is no token: the scanner stops
  there, with its error in \<open>ScanErr\<close> (\<open>sseBody\<close> below computes the tokens from the
  bytes of a stream).
\<close>

record httpBody =
  ReadAllBytes :: string
  ReadAllErr :: "cause option"
  ScanTokens :: "(string \<times> cause option) list"
  ScanErr :: "cause option"

record httpResponse =
  StatusCode :: go_int
  Body :: httpBody

text \<open>
  What a call of this package does not compute itself: \<open>json.Marshal\<close> of a request
  (\<^term>\<open>None\<close> is its error), the transport behind \<open>http.Client.Do\<close> (a fake transport
  scripted by the number of calls made before, which returns an error or a response),
  \<open>json.Unmarshal\<close> into a \<open>completionResponse\<close> and into a \<open>streamChunk\<close>
  (\<^term>\<open>None\<close> is its error).
\<close>

record 'f env =
  Marshal :: "'f completionRequest \<Rightarrow> string option"
  RoundTrip :: "nat \<Rightarrow> httpRequest \<Rightarrow> cause + httpResponse"
  Unmarshal :: "string \<Rightarrow> completionResponse option"
  UnmarshalChunk :: "string \<Rightarrow> streamChunk option"

text \<open>The network calls performed so far, in order: the requests the transport has seen.\<close>

type_synonym network = "httpRequest list"

definition completionsURL :: string where
  "completionsURL = ''https://text.novelai.net/oa/v1/completions''"

definition retries :: nat where
  "retries = 3"

text \<open>
  \<open>http.NewRequest("POST", completionsURL, body)\<close> with the headers \<open>Send\<close> sets.
  The method and the URL are valid constants, so it returns no error; the result is an
  option to keep the branch of the source.
\<close>

definition newRequest :: "string \<Rightarrow> string \<Rightarrow> httpRequest option" where
  "newRequest jsonData token =
     Some \<lparr>Method = ''POST'', URL = completionsURL,
           Header = [(''Content-Type'', ''application/json''),
                     (''Authorization'', ''Bearer '' @ token)],
           ReqBody = jsonData\<rparr>"

definition newStreamRequest :: "string \<Rightarrow> string \<Rightarrow> httpRequest option" where
  "newStreamRequest jsonData token =
     Some \<lparr>Method = ''POST'', URL = completionsURL,
           Header = [(''Content-Type'', ''application/json''),
                     (''Authorization'', ''Bearer '' @ token),
                     (''Accept'', ''text/event-stream'')],
           ReqBody = jsonData\<rparr>"

text \<open>
  The retry loop of \<open>Send\<close> (part_002, lines 148-161) and of \<open>SendStreaming\<close>:
  \<open>for attempt := 0; attempt <= retries; attempt++\<close>, with \<open>resp\<close> and \<open>err\<close> as
  the loop leaves them. The request rebuilt before a retry equals the first one; the
  sleep is not modelled. Every \<open>Do\<close> is one network call.
\<close>

function retryLoop ::
  "'f env \<Rightarrow> httpRequest \<Rightarrow> nat \<Rightarrow> httpResponse option \<times> cause option \<Rightarrow> network
   \<Rightarrow> (httpResponse option \<times> cause option) \<times> network" where
  "retryLoop env httpReq attempt res net =
     (if attempt \<le> retries then
        (case RoundTrip env (length net) httpReq of
           Inr resp \<Rightarrow> ((Some resp, None), net @ [httpReq])
         | Inl e \<Rightarrow> retryLoop env httpReq (Suc attempt) (None, Some e) (net @ [httpReq]))
      else (res, net))"
  by pat_completeness auto
termination
  by (relation "measure (\<lambda>(env, httpReq, attempt, res, net). Suc retries - attempt)") auto

declare retryLoop.simps [simp del]

section \<open>Send\<close>

text \<open>The five results of \<open>Send\<close>; \<open>err = None\<close> is Go's \<open>nil\<close> error.\<close>

record sendResult =
  reply :: string
  stopReason :: string
  inputTokens :: go_int
  outputTokens :: go_int
  err :: "error option"

definition failed :: "error \<Rightarrow> sendResult" where
  "failed e = \<lparr>reply = [], stopReason = [], inputTokens = 0, outputTokens = 0, err = Some e\<rparr>"

text \<open>
  The statement of \<open>Send\<close> and \<open>SendStreaming\<close> that appends the user turn of a
  non-empty input.
\<close>

definition addUserMessage :: "string \<Rightarrow> 'f Conversation \<Rightarrow> 'f Conversation" where
  "addUserMessage text c =
     (if text \<noteq> [] then c\<lparr>Messages := Messages c @ [\<lparr>Role = ''user'', Content = text\<rparr>]\<rparr> else c)"

definition sendRequest :: "'f::zero Sampling \<Rightarrow> 'f Conversation \<Rightarrow> 'f completionRequest" where
  "sendRequest sampling c =
     (let temperature = (if SamplingTemperature sampling \<noteq> 0 then SamplingTemperature sampling
                         else Temperature (Settings c));
          topP = (if SamplingTopP sampling \<noteq> 0 then SamplingTopP sampling else TopP (Settings c));
          topK = (if SamplingTopK sampling \<noteq> 0 then SamplingTopK sampling else TopK (Settings c))
      in \<lparr>ReqModel = Model (Settings c), Prompt = buildPrompt c,
          ReqMaxTokens = MaxTokens (Settings c), ReqTemperature = temperature, ReqTopP = topP,
          ReqTopK = topK, ReqMinP = MinP (Settings c),
          ReqFrequencyPenalty = FrequencyPenalty (Settings c),
          ReqPresencePenalty = PresencePenalty (Settings c),
          ReqRepetitionPenalty = RepetitionPenalty (Settings c),
          Stream = False, StreamOptions = None, Stop = StopSequences (Settings c)\<rparr>)"

text \<open>
  \<open>Send\<close> (part_002, lines 80-206), on the conversation and the network it changes.
  \<open>sendRequest\<close> is the request it builds (lines 104-130). The statements
  after the request was marshalled are \<open>sendExchange\<close>, those after the body was
  decoded are \<open>sendDecoded\<close>.
\<close>

definition sendDecoded ::
  "completionResponse \<Rightarrow> 'f Conversation \<Rightarrow> sendResult \<times> 'f Conversation" where
  "sendDecoded compResp c =
     (case Choices compResp of
        [] \<Rightarrow> (failed ErrNoChoices, c)
      | choice # _ \<Rightarrow>
          let c1 = c\<lparr>Messages := Messages c @ [\<lparr>Role = ''assistant'', Content = Text choice\<rparr>]\<rparr>;
              inToks = PromptTokens (RespUsage compResp);
              outToks = CompletionTokens (RespUsage compResp)
          in (\<lparr>reply = Text choice, stopReason = normalizeStopReason (FinishReason choice),
               inputTokens = inToks, outputTokens = outToks, err = None\<rparr>,
              c1\<lparr>Usage := \<lparr>InputTokens = InputTokens (Usage c1) + inToks,
                            OutputTokens = OutputTokens (Usage c1) + outToks\<rparr>\<rparr>))"

definition sendExchange ::
  "'f env \<Rightarrow> string \<Rightarrow> 'f Conversation \<Rightarrow> network \<Rightarrow> sendResult \<times> 'f Conversation \<times> network" where
  "sendExchange env jsonData c net =
     (case newRequest jsonData (ApiToken c) of
        None \<Rightarrow> (failed ErrCreateRequest, c, net)
      | Some httpReq \<Rightarrow>
          (case retryLoop env httpReq 0 (None, None) net of
             ((_, Some e), net1) \<Rightarrow> (failed (ErrHTTPAfterRetries retries e), c, net1)
           | ((None, None), net1) \<Rightarrow> (failed ErrNilResponse, c, net1)
           | ((Some resp, None), net1) \<Rightarrow>
               (case ReadAllErr (Body resp) of
                  Some e \<Rightarrow> (failed (ErrReadResponse e), c, net1)
                | None \<Rightarrow>
                    if StatusCode resp \<noteq> 200
                    then (failed (ErrAPIStatus (StatusCode resp) (ReadAllBytes (Body resp))), c, net1)
                    else
                      (case Unmarshal env (ReadAllBytes (Body resp)) of
                         None \<Rightarrow>
                           (\<lparr>reply = ReadAllBytes (Body resp), stopReason = [], inputTokens = 0,
                             outputTokens = 0, err = Some ErrParseResponse\<rparr>, c, net1)
                       | Some compResp \<Rightarrow>
                           (case sendDecoded compResp c of (r, c1) \<Rightarrow> (r, c1, net1))))))"

definition Send ::
  "'f::zero env \<Rightarrow> string \<Rightarrow> 'f Sampling \<Rightarrow> 'f Conversation \<Rightarrow> network
   \<Rightarrow> sendResult \<times> 'f Conversation \<times> network" where
  "Send env text sampling c net =
     (if ApiToken c = [] then (failed ErrTokenNotSet, c, net)
      else if text = [] \<and> length (Messages c) = 0 then (failed ErrNoMessages, c, net)
      else
        let c1 = addUserMessage text c in
        (case Marshal env (sendRequest sampling c1) of
           None \<Rightarrow> (failed ErrMarshal, c1, net)
         | Some jsonData \<Rightarrow> sendExchange env jsonData c1 net))"

section \<open>Send under a cancellation signal\<close>

text \<open>
  Modelled from the spec: the cancellation signal of the caller. None is in the sources:
  \<open>Send\<close> (part_002, lines 80-206) takes no signal, the struct \<open>Conversation\<close> has no
  field for one, and \<open>SetContext\<close>, by which the tests attach a context to the
  conversation (types.go, lines 1029, 1060 and 1121), is not declared. The spec (sections
  3 and 5): the token is optional and is attached to the conversation or passed per
  call. Here it is passed per call, \<^term>\<open>None\<close> when the caller supplied none, and its
  state is the one it has when the call starts.
\<close>

datatype cancelSignal = SignalActive | SignalCancelled

text \<open>
  Modelled from the spec: the \<open>Send\<close> that observes the signal, which is missing from
  the sources as the signal is. The spec (sections 5 and 8): an already-cancelled signal
  passed to \<open>Send\<close> must cause an immediate \<open>CancellationError\<close> without issuing any
  network I/O. \<open>SendWithSignal\<close> consults the signal before anything else; with no
  signal, or one that is not cancelled, it is the \<open>Send\<close> of the sources.
\<close>

definition SendWithSignal ::
  "'f::zero env \<Rightarrow> cancelSignal option \<Rightarrow> string \<Rightarrow> 'f Sampling \<Rightarrow> 'f Conversation \<Rightarrow> network
   \<Rightarrow> sendResult \<times> 'f Conversation \<times> network" where
  "SendWithSignal env signal text sampling c net =
     (case signal of
        Some SignalCancelled \<Rightarrow> (failed CancellationError, c, net)
      | _ \<Rightarrow> Send env text sampling c net)"

section \<open>Automatic continuation\<close>

text \<open>
  \<open>SendUntilDone\<close> (part_002, lines 282-317). The loop \<open>for { ... }\<close> has no bound: it runs as long as
  \<open>Send\<close> returns the stop reason \<open>max_tokens\<close>, and \<^term>\<open>None\<close> is the run that
  never leaves it. The arguments \<open>totalReply\<close>, \<open>inToks\<close> and \<open>outToks\<close> are the
  variables \<open>totalReply\<close>, \<open>inputTokens\<close> and \<open>outputTokens\<close> of the source.
\<close>

partial_function (option) sendLoop ::
  "'f::zero env \<Rightarrow> 'f Sampling \<Rightarrow> string \<Rightarrow> go_int \<Rightarrow> go_int \<Rightarrow> string \<Rightarrow> 'f Conversation
   \<Rightarrow> network \<Rightarrow> (sendResult \<times> 'f Conversation \<times> network) option" where
  "sendLoop env sampling totalReply inToks outToks input c net =
     (case Send env input sampling c net of
        (r, c1, net1) \<Rightarrow>
          if err r \<noteq> None
          then Some (\<lparr>reply = totalReply, stopReason = stopReason r, inputTokens = inToks,
                      outputTokens = outToks, err = err r\<rparr>, c1, net1)
          else if stopReason r \<noteq> ''max_tokens''
          then Some (\<lparr>reply = totalReply @ reply r, stopReason = stopReason r,
                      inputTokens = inToks + inputTokens r,
                      outputTokens = outToks + outputTokens r, err = None\<rparr>,
                     MergeIfLastTwoAssistant c1, net1)
          else sendLoop env sampling (totalReply @ reply r) (inToks + inputTokens r)
                 (outToks + outputTokens r) [] (MergeIfLastTwoAssistant c1) net1)"

declare sendLoop.simps [code]

definition SendUntilDone ::
  "'f::zero env \<Rightarrow> string \<Rightarrow> 'f Sampling \<Rightarrow> 'f Conversation \<Rightarrow> network
   \<Rightarrow> (sendResult \<times> 'f Conversation \<times> network) option" where
  "SendUntilDone env text sampling c net = sendLoop env sampling [] 0 0 text c net"

text \<open>
  The first \<open>k\<close> iterations of the loop when each of them continues (\<open>Send\<close> returns
  no error and the stop reason \<open>max_tokens\<close>): the accumulated reply and token counts,
  the next input, the conversation and the network after them; \<^term>\<open>None\<close> when one
  of them does not continue.
\<close>

fun continued ::
  "'f::zero env \<Rightarrow> 'f Sampling \<Rightarrow> nat \<Rightarrow> string \<Rightarrow> go_int \<Rightarrow> go_int \<Rightarrow> string \<Rightarrow> 'f Conversation
   \<Rightarrow> network \<Rightarrow> (string \<times> go_int \<times> go_int \<times> string \<times> 'f Conversation \<times> network) option" where
  "continued env sampling 0 totalReply inToks outToks input c net =
     Some (totalReply, inToks, outToks, input, c, net)"
| "continued env sampling (Suc k) totalReply inToks outToks input c net =
     (case Send env input sampling c net of
        (r, c1, net1) \<Rightarrow>
          if err r = None \<and> stopReason r = ''max_tokens''
          then continued env sampling k (totalReply @ reply r) (inToks + inputTokens r)
                 (outToks + outputTokens r) [] (MergeIfLastTwoAssistant c1) net1
          else None)"

text \<open>
  A transport and decoder under which the \<open>k\<close>-th network call (counted from 0) is
  answered, whatever the request, with the status 200 and a body that is read without
  error and decodes to \<open>compResp\<close>.
\<close>

definition answers :: "'f env \<Rightarrow> nat \<Rightarrow> completionResponse \<Rightarrow> bool" where
  "answers env k compResp =
     (\<forall>httpReq. \<exists>resp. RoundTrip env k httpReq = Inr resp \<and> StatusCode resp = 200 \<and>
        ReadAllErr (Body resp) = None \<and> Unmarshal env (ReadAllBytes (Body resp)) = Some compResp)"

section \<open>Streaming\<close>

text \<open>
  The callback of the caller (\<open>StreamCallback\<close>), which may be \<open>nil\<close>, acts on a state
  of the caller.
\<close>

type_synonym 'u StreamCallback = "(string \<Rightarrow> bool \<Rightarrow> 'u \<Rightarrow> 'u) option"

definition invoke :: "'u StreamCallback \<Rightarrow> string \<Rightarrow> bool \<Rightarrow> 'u \<Rightarrow> 'u" where
  "invoke callback text done u = (case callback of None \<Rightarrow> u | Some f \<Rightarrow> f text done u)"

text \<open>A callback that records its calls.\<close>

definition recordCalls :: "((string \<times> bool) list) StreamCallback" where
  "recordCalls = Some (\<lambda>text done calls. calls @ [(text, done)])"

definition hasDataPrefix :: "string \<Rightarrow> bool" where
  "hasDataPrefix line = (take 6 line = ''data: '')"

text \<open>
  The loop \<open>for scanner.Scan()\<close> of \<open>parseSSEStream\<close> (types.go, lines 242-285), over the tokens
  of the scanner; \<open>accumulated\<close> and \<open>pending\<close> are the variables \<open>accumulated\<close> and
  \<open>stopReason\<close> of the source. It
  returns them with the value of \<open>scanner.Err()\<close> when the loop is left.
\<close>

fun scanLoop ::
  "(string \<Rightarrow> streamChunk option) \<Rightarrow> 'u StreamCallback \<Rightarrow> (string \<times> cause option) list
   \<Rightarrow> cause option \<Rightarrow> string \<Rightarrow> string \<Rightarrow> 'u \<Rightarrow> (string \<times> string \<times> cause option) \<times> 'u" where
  "scanLoop decode callback [] final accumulated pending u =
     ((accumulated, pending, final), u)"
| "scanLoop decode callback ((line, e) # rest) final accumulated pending u =
     (if \<not> hasDataPrefix line then scanLoop decode callback rest final accumulated pending u
      else if drop 6 line = ''[DONE]''
      then ((accumulated, pending, e), invoke callback [] True u)
      else
        (case decode (drop 6 line) of
           None \<Rightarrow> scanLoop decode callback rest final accumulated pending u
         | Some chunk \<Rightarrow>
             (case ChunkChoices chunk of
                [] \<Rightarrow> scanLoop decode callback rest final accumulated pending u
              | choice # _ \<Rightarrow>
                  scanLoop decode callback rest final
                    (if ChunkText choice \<noteq> [] then accumulated @ ChunkText choice else accumulated)
                    (case ChunkFinishReason choice of
                       None \<Rightarrow> pending
                     | Some reason \<Rightarrow> if reason \<noteq> [] then reason else pending)
                    (if ChunkText choice \<noteq> [] then invoke callback (ChunkText choice) False u
                     else u))))"


text \<open>
  \<open>parseSSEStream\<close> (types.go, lines 234-292): full text, stop reason, error; and the
  state of the caller.
\<close>

definition parseSSEStream ::
  "(string \<Rightarrow> streamChunk option) \<Rightarrow> httpBody \<Rightarrow> 'u StreamCallback \<Rightarrow> 'u
   \<Rightarrow> (string \<times> string \<times> error option) \<times> 'u" where
  "parseSSEStream decode body callback u =
     (case scanLoop decode callback (ScanTokens body) (ScanErr body) [] [] u of
        ((fullText, rawReason, scanErr), u1) \<Rightarrow>
          (case scanErr of
             Some e \<Rightarrow> ((fullText, rawReason, Some (ErrReadStream e)), u1)
           | None \<Rightarrow> ((fullText, rawReason, None), u1)))"






text \<open>
  Go's \<open>len\<close> and its division of \<open>int\<close>, which truncates towards zero (the divisor is
  never zero here).
\<close>

definition go_len :: "string \<Rightarrow> go_int" where
  "go_len s = word_of_nat (length s)"

definition go_div :: "go_int \<Rightarrow> go_int \<Rightarrow> go_int" where
  "go_div a b = word_of_int (sint a sdiv sint b)"

text \<open>The output tokens \<open>SendStreaming\<close> computes from the reply (types.go, lines 219-226).\<close>

definition estimateTokens :: "string \<Rightarrow> go_int" where
  "estimateTokens fullText =
     (let toks = go_div (go_len fullText) 4
      in if toks = 0 \<and> 0 < sint (go_len fullText) then 1 else toks)"

definition streamRequest :: "'f Conversation \<Rightarrow> 'f completionRequest" where
  "streamRequest c =
     \<lparr>ReqModel = Model (Settings c), Prompt = buildPrompt c,
      ReqMaxTokens = MaxTokens (Settings c), ReqTemperature = Temperature (Settings c),
      ReqTopP = TopP (Settings c), ReqTopK = TopK (Settings c), ReqMinP = MinP (Settings c),
      ReqFrequencyPenalty = FrequencyPenalty (Settings c),
      ReqPresencePenalty = PresencePenalty (Settings c),
      ReqRepetitionPenalty = RepetitionPenalty (Settings c),
      Stream = True, StreamOptions = None, Stop = StopSequences (Settings c)\<rparr>"

text \<open>
  \<open>SendStreaming\<close> (types.go, lines 121-231). The statements after the stream was parsed without
  error are \<open>streamParsed\<close>; the named result \<open>inputTokens\<close> is never assigned.
\<close>

definition streamParsed :: "string \<Rightarrow> string \<Rightarrow> 'f Conversation \<Rightarrow> sendResult \<times> 'f Conversation" where
  "streamParsed fullText rawReason c =
     (let c1 = c\<lparr>Messages := Messages c @ [\<lparr>Role = ''assistant'', Content = fullText\<rparr>]\<rparr>;
          outToks = estimateTokens fullText
      in (\<lparr>reply = fullText, stopReason = normalizeStopReason rawReason, inputTokens = 0,
           outputTokens = outToks, err = None\<rparr>,
          c1\<lparr>Usage := (Usage c1)\<lparr>OutputTokens := OutputTokens (Usage c1) + outToks\<rparr>\<rparr>))"

definition streamExchange ::
  "'f env \<Rightarrow> string \<Rightarrow> 'u StreamCallback \<Rightarrow> 'u \<Rightarrow> 'f Conversation \<Rightarrow> network
   \<Rightarrow> sendResult \<times> 'f Conversation \<times> network \<times> 'u" where
  "streamExchange env jsonData callback u c net =
     (case newStreamRequest jsonData (ApiToken c) of
        None \<Rightarrow> (failed ErrCreateRequest, c, net, u)
      | Some httpReq \<Rightarrow>
          (case retryLoop env httpReq 0 (None, None) net of
             ((_, Some e), net1) \<Rightarrow> (failed (ErrHTTPAfterRetries retries e), c, net1, u)
           | ((None, None), net1) \<Rightarrow> (failed ErrNilResponse, c, net1, u)
           | ((Some resp, None), net1) \<Rightarrow>
               if StatusCode resp \<noteq> 200
               then (failed (ErrAPIStatus (StatusCode resp) (ReadAllBytes (Body resp))), c, net1, u)
               else
                 (case parseSSEStream (UnmarshalChunk env) (Body resp) callback u of
                    ((fullText, rawReason, Some e), u1) \<Rightarrow>
                      (\<lparr>reply = fullText, stopReason = rawReason, inputTokens = 0,
                        outputTokens = 0, err = Some e\<rparr>, c, net1, u1)
                  | ((fullText, rawReason, None), u1) \<Rightarrow>
                      (case streamParsed fullText rawReason c of (r, c1) \<Rightarrow> (r, c1, net1, u1)))))"

definition SendStreaming ::
  "'f env \<Rightarrow> string \<Rightarrow> 'u StreamCallback \<Rightarrow> 'u \<Rightarrow> 'f Conversation \<Rightarrow> network
   \<Rightarrow> sendResult \<times> 'f Conversation \<times> network \<times> 'u" where
  "SendStreaming env text callback u c net =
     (if ApiToken c = [] then (failed ErrTokenNotSet, c, net, u)
      else if text = [] \<and> length (Messages c) = 0 then (failed ErrNoMessages, c, net, u)
      else
        let c1 = addUserMessage text c in
        (case Marshal env (streamRequest c1) of
           None \<Rightarrow> (failed ErrMarshal, c1, net, u)
         | Some jsonData \<Rightarrow> streamExchange env jsonData callback u c1 net))"

section \<open>Example values\<close>

text \<open>In the examples \<^typ>\<open>int\<close> stands for \<open>float64\<close>.\<close>

definition userMsg :: "string \<Rightarrow> Message" where
  "userMsg s = \<lparr>Role = ''user'', Content = s\<rparr>"

definition assistantMsg :: "string \<Rightarrow> Message" where
  "assistantMsg s = \<lparr>Role = ''assistant'', Content = s\<rparr>"

definition exSettings :: "int Settings" where
  "exSettings =
     \<lparr>Model = ''glm-4-6'', MaxTokens = 2048, Temperature = 1, TopP = 0, TopK = 0, MinP = 0,
      FrequencyPenalty = 0, PresencePenalty = 0, RepetitionPenalty = 0,
      StopSequences = [''<|user|>'', ''<|system|>''], Thinking = False,
      ThinkFormat = Some ThinkFormatGLM46\<rparr>"

definition exConv :: "Message list \<Rightarrow> int Conversation" where
  "exConv ms =
     \<lparr>System = ''sys'', Messages = ms, Usage = \<lparr>InputTokens = 0, OutputTokens = 0\<rparr>,
      ApiToken = ''test-token'', Settings = exSettings\<rparr>"

definition exSampling :: "int Sampling" where
  "exSampling = \<lparr>SamplingTemperature = 0, SamplingTopP = 0, SamplingTopK = 0\<rparr>"

text \<open>
  A fake transport: the \<open>k\<close>-th network call gets the \<open>k\<close>-th entry of a script, and a
  refused connection once the script is used up. In the example environment the
  marshalled request is its prompt, and the decoders are tables of the bodies and the
  stream payloads of the examples.
\<close>

definition exTransport :: "(cause + httpResponse) list \<Rightarrow> nat \<Rightarrow> httpRequest \<Rightarrow> cause + httpResponse" where
  "exTransport script k httpReq = (if k < length script then script ! k else Inl ''connection refused'')"

definition bufferedResponse :: "go_int \<Rightarrow> string \<Rightarrow> cause + httpResponse" where
  "bufferedResponse status body =
     Inr \<lparr>StatusCode = status,
          Body = \<lparr>ReadAllBytes = body, ReadAllErr = None, ScanTokens = [], ScanErr = None\<rparr>\<rparr>"

definition streamBody :: "string list \<Rightarrow> httpBody" where
  "streamBody ls =
     \<lparr>ReadAllBytes = [], ReadAllErr = None, ScanTokens = map (\<lambda>l. (l, None)) ls, ScanErr = None\<rparr>"


definition streamedResponse :: "string list \<Rightarrow> cause + httpResponse" where
  "streamedResponse ls = Inr \<lparr>StatusCode = 200, Body = streamBody ls\<rparr>"

text \<open>The completion with one choice, of index 0, and the two token counts.\<close>

definition decodedResponse :: "string \<Rightarrow> string \<Rightarrow> go_int \<Rightarrow> go_int \<Rightarrow> completionResponse" where
  "decodedResponse txt finish promptToks completionToks =
     \<lparr>ID = [], Object = [], Created = 0, RespModel = [],
      Choices = [\<lparr>Index = 0, Text = txt, FinishReason = finish\<rparr>],
      RespUsage = \<lparr>PromptTokens = promptToks, CompletionTokens = completionToks, TotalTokens = 0\<rparr>\<rparr>"

definition exBody1 :: string where
  \<open>exBody1 = ''{"choices":[{"text":"Once ","finish_reason":"max_tokens"}],"usage":{"prompt_tokens":10,"completion_tokens":4}}''\<close>

definition exBody2 :: string where
  \<open>exBody2 = ''{"choices":[{"text":" upon","finish_reason":"max_tokens"}],"usage":{"prompt_tokens":12,"completion_tokens":5}}''\<close>

definition exBody3 :: string where
  \<open>exBody3 = ''{"choices":[{"text":" a time.","finish_reason":"stop"}],"usage":{"prompt_tokens":15,"completion_tokens":6}}''\<close>

definition exUnmarshal :: "string \<Rightarrow> completionResponse option" where
  "exUnmarshal =
     map_of [(exBody1, decodedResponse ''Once '' ''max_tokens'' 10 4),
             (exBody2, decodedResponse '' upon'' ''max_tokens'' 12 5),
             (exBody3, decodedResponse '' a time.'' ''stop'' 15 6)]"

text \<open>
  The chunk with one choice, of index 0, and no identifying field: what decoding a
  payload such as \<open>{"choices":[{"text":"Hel"}]}\<close> yields.
\<close>

definition decodedChunk :: "string \<Rightarrow> string option \<Rightarrow> tokenUsage option \<Rightarrow> streamChunk" where
  "decodedChunk txt finish usage =
     \<lparr>ChunkID = [], ChunkObject = [], ChunkCreated = 0, ChunkModel = [],
      ChunkChoices = [\<lparr>ChunkIndex = 0, ChunkText = txt, ChunkFinishReason = finish\<rparr>],
      ChunkUsage = usage\<rparr>"

definition exChunk1 :: string where
  \<open>exChunk1 = ''{"choices":[{"text":"Hel"}]}''\<close>

definition exChunk2 :: string where
  \<open>exChunk2 = ''{"choices":[{"text":"lo","finish_reason":"stop"}]}''\<close>

definition exChunk3 :: string where
  \<open>exChunk3 = ''{"choices":[]}''\<close>

definition exChunk4 :: string where
  \<open>exChunk4 = ''{"choices":[{"text":"Hello, world","finish_reason":"length"}],"usage":{"prompt_tokens":9,"completion_tokens":7}}''\<close>

definition exUnmarshalChunk :: "string \<Rightarrow> streamChunk option" where
  "exUnmarshalChunk =
     map_of [(exChunk1, decodedChunk ''Hel'' None None),
             (exChunk2, decodedChunk ''lo'' (Some ''stop'') None),
             (exChunk3, \<lparr>ChunkID = [], ChunkObject = [], ChunkCreated = 0, ChunkModel = [],
                          ChunkChoices = [], ChunkUsage = None\<rparr>),
             (exChunk4, decodedChunk ''Hello, world'' (Some ''length'')
                          (Some \<lparr>PromptTokens = 9, CompletionTokens = 7, TotalTokens = 0\<rparr>))]"

definition exEnv :: "(cause + httpResponse) list \<Rightarrow> int env" where
  "exEnv script =
     \<lparr>Marshal = (\<lambda>req. Some (Prompt req)), RoundTrip = exTransport script,
      Unmarshal = exUnmarshal, UnmarshalChunk = exUnmarshalChunk\<rparr>"

definition exScript3 :: "(cause + httpResponse) list" where
  "exScript3 = [bufferedResponse 200 exBody1, bufferedResponse 200 exBody2, bufferedResponse 200 exBody3]"

definition exScriptFail :: "(cause + httpResponse) list" where
  "exScriptFail = [bufferedResponse 200 exBody1, bufferedResponse 500 ''oops'']"

section \<open>The merge of a trailing pair of assistant turns\<close>

lemma Merge_unchanged: "\<not> lastTwoAssistant (Messages c) \<Longrightarrow> MergeIfLastTwoAssistant c = c"
proof -
  assume n: "\<not> lastTwoAssistant (Messages c)"
  have idx: "length (Messages c) - 1 - 1 = length (Messages c) - 2" by simp
  show ?thesis
  proof (cases "length (Messages c) < 2")
    case True
    then show ?thesis by (simp add: MergeIfLastTwoAssistant_def)
  next
    case False
    with n have "Role (Messages c ! (length (Messages c) - 1)) \<noteq> ''assistant'' \<or>
        Role (Messages c ! (length (Messages c) - 1 - 1)) \<noteq> ''assistant''"
      unfolding idx by (auto simp: lastTwoAssistant_def)
    with False show ?thesis
      unfolding MergeIfLastTwoAssistant_def Let_def by auto
  qed
qed

lemma lastTwoAssistant_snoc2:
  "lastTwoAssistant (xs @ [a, b]) = (Role a = ''assistant'' \<and> Role b = ''assistant'')"
  by (auto simp: lastTwoAssistant_def nth_append)

lemma lastTwoAssistant_decomp:
  assumes "lastTwoAssistant ms"
  shows "\<exists>xs a b. ms = xs @ [a, b]"
proof -
  from assms have len: "2 \<le> length ms" by (simp add: lastTwoAssistant_def)
  then have "ms \<noteq> []" by auto
  then obtain ys b where ms: "ms = ys @ [b]" by (metis rev_exhaust)
  with len have "ys \<noteq> []" by auto
  then obtain xs a where "ys = xs @ [a]" by (metis rev_exhaust)
  with ms show ?thesis by auto
qed

lemma Merge_snoc2:
  assumes "Messages c = xs @ [a, b]" "Role a = ''assistant''" "Role b = ''assistant''"
  shows "MergeIfLastTwoAssistant c = c\<lparr>Messages := xs @ [a\<lparr>Content := mergedContent a b\<rparr>]\<rparr>"
  using assms
  by (simp add: MergeIfLastTwoAssistant_def Let_def nth_append mergedContent_def list_update_append)

lemma Merge_Messages_length:
  assumes l: "lastTwoAssistant (Messages c)"
  shows "length (Messages (MergeIfLastTwoAssistant c)) = length (Messages c) - 1"
proof -
  from l obtain xs a b where ms: "Messages c = xs @ [a, b]"
    using lastTwoAssistant_decomp by blast
  with l have "Role a = ''assistant''" and "Role b = ''assistant''"
    by (simp_all add: lastTwoAssistant_snoc2)
  with ms have "MergeIfLastTwoAssistant c = c\<lparr>Messages := xs @ [a\<lparr>Content := mergedContent a b\<rparr>]\<rparr>"
    by (rule Merge_snoc2)
  with ms show ?thesis by simp
qed

lemma Merge_changes:
  assumes l: "lastTwoAssistant (Messages c)"
  shows "MergeIfLastTwoAssistant c \<noteq> c"
proof -
  from l have "2 \<le> length (Messages c)" by (simp add: lastTwoAssistant_def)
  with Merge_Messages_length [OF l]
  have "length (Messages (MergeIfLastTwoAssistant c)) \<noteq> length (Messages c)" by arith
  then show ?thesis by auto
qed

text \<open>
  C1. The claim: for every non-empty history, merging twice gives the same history as
  merging once. It fails on a history that ends in three assistant turns: the first merge
  leaves two of them, which the second merges again.
\<close>

theorem Merge_twice_counterexample:
  "MergeIfLastTwoAssistant
     (MergeIfLastTwoAssistant (exConv [assistantMsg ''a'', assistantMsg ''b'', assistantMsg ''c'']))
   \<noteq> MergeIfLastTwoAssistant (exConv [assistantMsg ''a'', assistantMsg ''b'', assistantMsg ''c''])"
  by (simp add: MergeIfLastTwoAssistant_def exConv_def assistantMsg_def Let_def)

text \<open>
  C1, as amended. Merging twice gives the same conversation as merging once exactly when
  the history does not end in three assistant turns; so the merge is idempotent on every
  history, empty or not, whose last three entries are not all of role assistant.
\<close>

theorem Merge_idempotent_iff:
  "(MergeIfLastTwoAssistant (MergeIfLastTwoAssistant c) = MergeIfLastTwoAssistant c)
     = (\<not> lastThreeAssistant (Messages c))"
proof (cases "lastTwoAssistant (Messages c)")
  case False
  then have "\<not> lastThreeAssistant (Messages c)"
    by (auto simp: lastTwoAssistant_def lastThreeAssistant_def)
  with False show ?thesis by (simp add: Merge_unchanged)
next
  case True
  then obtain xs a b where ms: "Messages c = xs @ [a, b]"
    using lastTwoAssistant_decomp by blast
  with True have ra: "Role a = ''assistant''" and rb: "Role b = ''assistant''"
    by (simp_all add: lastTwoAssistant_snoc2)
  let ?c1 = "MergeIfLastTwoAssistant c"
  have c1: "?c1 = c\<lparr>Messages := xs @ [a\<lparr>Content := mergedContent a b\<rparr>]\<rparr>"
    using ms ra rb by (rule Merge_snoc2)
  have three: "lastThreeAssistant (Messages c) = lastTwoAssistant (Messages ?c1)"
    using ra rb by (cases xs rule: rev_cases)
      (auto simp: c1 ms lastThreeAssistant_def lastTwoAssistant_def nth_append)
  show ?thesis
  proof (cases "lastTwoAssistant (Messages ?c1)")
    case False
    with three show ?thesis by (simp add: Merge_unchanged)
  next
    case True
    then have "MergeIfLastTwoAssistant ?c1 \<noteq> ?c1" by (rule Merge_changes)
    with True three show ?thesis by simp
  qed
qed

theorem Merge_idempotent_iff_witness:
  "MergeIfLastTwoAssistant
     (MergeIfLastTwoAssistant (exConv [userMsg ''Hello'', assistantMsg ''a'', assistantMsg ''b'']))
   = MergeIfLastTwoAssistant (exConv [userMsg ''Hello'', assistantMsg ''a'', assistantMsg ''b''])"
  using Merge_idempotent_iff [of "exConv [userMsg ''Hello'', assistantMsg ''a'', assistantMsg ''b'']"]
  by (simp add: lastThreeAssistant_def exConv_def userMsg_def assistantMsg_def)

text \<open>
  C3. The merge changes the conversation if and only if the history has at least two
  entries and the last two both have the role assistant. Then the new history is the old
  one without its last two entries, followed by one entry that has the role of the
  second-to-last and, as content, the second-to-last content without its trailing
  characters of the cutset (space, tab, line feed, carriage return: \<open>strings.TrimRight\<close>)
  followed at once by the last content without its surrounding white space
  (\<open>strings.TrimSpace\<close>); nothing else of the conversation changes.
\<close>

theorem Merge_spec:
  "(MergeIfLastTwoAssistant c \<noteq> c) = lastTwoAssistant (Messages c) \<and>
   (lastTwoAssistant (Messages c) \<longrightarrow>
      MergeIfLastTwoAssistant c =
        c\<lparr>Messages :=
            take (length (Messages c) - 2) (Messages c) @
            [\<lparr>Role = Role (Messages c ! (length (Messages c) - 2)),
              Content = TrimRight (Content (Messages c ! (length (Messages c) - 2))) mergeCutset
                        @ TrimSpace (Content (Messages c ! (length (Messages c) - 1)))\<rparr>]\<rparr>)"
proof (cases "lastTwoAssistant (Messages c)")
  case False
  then show ?thesis by (simp add: Merge_unchanged)
next
  case True
  then obtain xs a b where ms: "Messages c = xs @ [a, b]"
    using lastTwoAssistant_decomp by blast
  with True have ra: "Role a = ''assistant''" and rb: "Role b = ''assistant''"
    by (simp_all add: lastTwoAssistant_snoc2)
  have c1: "MergeIfLastTwoAssistant c = c\<lparr>Messages := xs @ [a\<lparr>Content := mergedContent a b\<rparr>]\<rparr>"
    using ms ra rb by (rule Merge_snoc2)
  have ne: "MergeIfLastTwoAssistant c \<noteq> c" using True by (rule Merge_changes)
  have "a\<lparr>Content := mergedContent a b\<rparr> = \<lparr>Role = Role a, Content = mergedContent a b\<rparr>"
    by simp
  with True ne show ?thesis
    by (simp add: c1 ms nth_append mergedContent_def)
qed

theorem Merge_spec_witness:
  "lastTwoAssistant (Messages (exConv [userMsg ''Hello'', assistantMsg ''First part '',
       assistantMsg ('' second part'' @ [CHR 0x0A])])) \<and>
   Messages (MergeIfLastTwoAssistant (exConv [userMsg ''Hello'', assistantMsg ''First part '',
       assistantMsg ('' second part'' @ [CHR 0x0A])]))
     = [userMsg ''Hello'', assistantMsg ''First partsecond part'']"
  using Merge_spec [of "exConv [userMsg ''Hello'', assistantMsg ''First part '',
       assistantMsg ('' second part'' @ [CHR 0x0A])]"]
  by (simp add: lastTwoAssistant_def exConv_def userMsg_def assistantMsg_def
      TrimRight_def mergeCutset_def TrimSpace_def unicodeSpace_def trimLeftSpace.simps
      spaceWidth_def)

section \<open>Stop reasons\<close>

text \<open>
  C8. \<open>normalizeStopReason\<close> maps \<open>stop\<close> to \<open>end_turn\<close>, \<open>length\<close> to
  \<open>max_tokens\<close> and \<open>tool_calls\<close> to \<open>tool_use\<close>, and returns every other string,
  the empty string among them, unchanged. (It is a function of HOL, so it is total.)
\<close>

theorem normalizeStopReason_table:
  "normalizeStopReason ''stop'' = ''end_turn'' \<and>
   normalizeStopReason ''length'' = ''max_tokens'' \<and>
   normalizeStopReason ''tool_calls'' = ''tool_use'' \<and>
   normalizeStopReason [] = [] \<and>
   (reason \<noteq> ''stop'' \<and> reason \<noteq> ''length'' \<and> reason \<noteq> ''tool_calls''
      \<longrightarrow> normalizeStopReason reason = reason)"
  by (simp add: normalizeStopReason_def)

theorem normalizeStopReason_table_witness:
  "normalizeStopReason ''unknown'' = ''unknown'' \<and> normalizeStopReason ''max_tokens'' = ''max_tokens''"
  using normalizeStopReason_table [of "''unknown''"] normalizeStopReason_table [of "''max_tokens''"]
  by simp

section \<open>Prompt formatter\<close>

lemmas prompt_defs = buildPrompt_def writeMessage_def glmPrefix_def glmSystem_def glmUser_def
  glmAssistant_def glmNoThink_def nl_def

text \<open>
  C2. For the history whose only entry is the user message \<open>Hello\<close>, under the system
  prompt \<open>sys\<close> and with the policy \<open>ThinkFormatGLM46\<close> (user suffix \<open>/nothink\<close>,
  assistant prefix \<open></think>\<close> and a line feed) set: with thinking disabled the prompt
  contains \<open>/nothink\<close> at exactly one position and \<open></think>\<close> at exactly one position;
  with thinking enabled it contains neither. Every other field of the conversation is
  arbitrary. (\<open>buildPrompt\<close> writes the constant \<open>glmNoThink\<close> and the constant prefill
  \<open><think></think>\<close>; it does not read the policy.)
\<close>

theorem buildPrompt_nothink_once:
  "occurrences ''/nothink''
     (buildPrompt (c\<lparr>System := ''sys'', Messages := [\<lparr>Role = ''user'', Content = ''Hello''\<rparr>],
        Settings := (Settings c)\<lparr>Thinking := False, ThinkFormat := Some ThinkFormatGLM46\<rparr>\<rparr>)) = 1 \<and>
   occurrences ''</think>''
     (buildPrompt (c\<lparr>System := ''sys'', Messages := [\<lparr>Role = ''user'', Content = ''Hello''\<rparr>],
        Settings := (Settings c)\<lparr>Thinking := False, ThinkFormat := Some ThinkFormatGLM46\<rparr>\<rparr>)) = 1 \<and>
   occurrences ''/nothink''
     (buildPrompt (c\<lparr>System := ''sys'', Messages := [\<lparr>Role = ''user'', Content = ''Hello''\<rparr>],
        Settings := (Settings c)\<lparr>Thinking := True, ThinkFormat := Some ThinkFormatGLM46\<rparr>\<rparr>)) = 0 \<and>
   occurrences ''</think>''
     (buildPrompt (c\<lparr>System := ''sys'', Messages := [\<lparr>Role = ''user'', Content = ''Hello''\<rparr>],
        Settings := (Settings c)\<lparr>Thinking := True, ThinkFormat := Some ThinkFormatGLM46\<rparr>\<rparr>)) = 0"
  by (simp add: prompt_defs)

theorem buildPrompt_nothink_once_witness:
  "buildPrompt (exConv [userMsg ''Hello''])
     = ''[gMASK]<sop><|system|>'' @ nl @ ''sys'' @ nl @ ''<|user|>'' @ nl @ ''Hello/nothink'' @ nl
       @ ''<|assistant|>'' @ nl @ ''<think></think>'' @ nl \<and>
   occurrences ''/nothink'' (buildPrompt (exConv [userMsg ''Hello''])) = 1 \<and>
   occurrences ''</think>'' (buildPrompt (exConv [userMsg ''Hello''])) = 1"
  using buildPrompt_nothink_once [of "exConv []"]
  by (simp add: prompt_defs exConv_def exSettings_def userMsg_def)

lemma writeMessage_unknown: "\<not> knownRole msg \<Longrightarrow> writeMessage thinking isLast msg = []"
  by (simp add: writeMessage_def knownRole_def)

lemma writeMessage_known:
  "knownRole msg \<Longrightarrow> 0 < n \<Longrightarrow>
   writeMessage thinking (int i = int n - 1) msg = renderedTurn thinking n (i, msg)"
  by (auto simp: writeMessage_def knownRole_def renderedTurn_def roleToken_def)

lemma writeMessages_filter:
  "i + length msgs \<le> n \<Longrightarrow>
   writeMessages thinking n i msgs =
     concat (map (renderedTurn thinking n)
       (filter (\<lambda>im. knownRole (snd im)) (zip [i ..< i + length msgs] msgs)))"
proof (induction msgs arbitrary: i)
  case Nil
  then show ?case by simp
next
  case (Cons msg rest)
  then have n: "0 < n" and le: "Suc i + length rest \<le> n" by simp_all
  have z: "zip [i ..< i + length (msg # rest)] (msg # rest)
           = (i, msg) # zip [Suc i ..< Suc i + length rest] rest"
    by (simp add: upt_conv_Cons del: upt_Suc)
  show ?case
    unfolding z using Cons.IH [OF le] n
    by (simp add: writeMessage_unknown writeMessage_known)
qed

text \<open>
  C10. A message whose role is none of \<open>user\<close>, \<open>assistant\<close> and \<open>system\<close> makes
  \<open>buildPrompt\<close> write nothing, neither a role token nor the content. The prompt is the
  prefix, the system block, then for the messages of these three roles, in the order of
  the history and with their index in the whole history, the role token, a line feed,
  the content and a line feed (with \<open>/nothink\<close> after the content of a user message that
  is the last entry of the history when thinking is disabled), then the closing
  assistant token and the prefill.
\<close>

theorem buildPrompt_known_roles:
  "(\<not> knownRole msg \<longrightarrow> writeMessage thinking isLast msg = []) \<and>
   buildPrompt c =
     glmPrefix
     @ (if System c \<noteq> [] then glmSystem @ nl @ System c @ nl else [])
     @ concat (map (renderedTurn (Thinking (Settings c)) (length (Messages c)))
         (filter (\<lambda>im. knownRole (snd im)) (zip [0 ..< length (Messages c)] (Messages c))))
     @ glmAssistant @ nl
     @ (if \<not> Thinking (Settings c) then ''<think></think>'' @ nl else [])"
  using writeMessages_filter [of 0 "Messages c" "length (Messages c)" "Thinking (Settings c)"]
  by (simp add: buildPrompt_def writeMessage_unknown)

theorem buildPrompt_known_roles_witness:
  "\<not> knownRole \<lparr>Role = ''tool'', Content = ''ignored''\<rparr> \<and>
   writeMessage False True \<lparr>Role = ''tool'', Content = ''ignored''\<rparr> = [] \<and>
   buildPrompt (exConv [userMsg ''Hi'', \<lparr>Role = ''tool'', Content = ''ignored''\<rparr>,
       assistantMsg ''Yo'', \<lparr>Role = ''User'', Content = ''dropped''\<rparr>])
     = ''[gMASK]<sop><|system|>'' @ nl @ ''sys'' @ nl @ ''<|user|>'' @ nl @ ''Hi'' @ nl
       @ ''<|assistant|>'' @ nl @ ''Yo'' @ nl
       @ ''<|assistant|>'' @ nl @ ''<think></think>'' @ nl"
  using buildPrompt_known_roles [of "\<lparr>Role = ''tool'', Content = ''ignored''\<rparr>" False True
      "exConv [userMsg ''Hi'', \<lparr>Role = ''tool'', Content = ''ignored''\<rparr>,
         assistantMsg ''Yo'', \<lparr>Role = ''User'', Content = ''dropped''\<rparr>]"]
  by (simp add: knownRole_def renderedTurn_def roleToken_def exConv_def exSettings_def userMsg_def
      assistantMsg_def glmPrefix_def glmSystem_def glmUser_def glmAssistant_def glmNoThink_def
      nl_def upt_conv_Cons del: upt_Suc)

section \<open>Send\<close>

lemma retryLoop_net:
  "retryLoop env httpReq attempt res net = (res', net') \<Longrightarrow>
   \<exists>k. net' = net @ replicate k httpReq \<and> (attempt \<le> retries \<longrightarrow> 0 < k) \<and> k \<le> Suc retries - attempt"
proof (induction env httpReq attempt res net rule: retryLoop.induct)
  case (1 env httpReq attempt res net)
  show ?case
  proof (cases "attempt \<le> retries")
    case False
    with "1.prems" show ?thesis by (simp add: retryLoop.simps)
  next
    case True
    show ?thesis
    proof (cases "RoundTrip env (length net) httpReq")
      case (Inr resp)
      with True "1.prems" have "net' = net @ replicate 1 httpReq"
        by (simp add: retryLoop.simps)
      with True show ?thesis by (intro exI [of _ 1]) simp
    next
      case (Inl e)
      with True "1.prems"
      have "retryLoop env httpReq (Suc attempt) (None, Some e) (net @ [httpReq]) = (res', net')"
        by (simp add: retryLoop.simps)
      from "1.IH" [OF True Inl this]
      obtain k where k: "net' = (net @ [httpReq]) @ replicate k httpReq"
        and kb: "k \<le> Suc retries - Suc attempt" by blast
      from k have "net' = net @ replicate (Suc k) httpReq" by simp
      with kb True show ?thesis by (intro exI [of _ "Suc k"]) simp
    qed
  qed
qed

lemma retryLoop_grows:
  assumes "retryLoop env httpReq 0 res net = (res', net')"
  shows "length net < length net'"
  using retryLoop_net [OF assms] by auto

lemma retryLoop_answered:
  "RoundTrip env (length net) httpReq = Inr resp \<Longrightarrow>
   retryLoop env httpReq 0 res net = ((Some resp, None), net @ [httpReq])"
  by (simp add: retryLoop.simps)

lemma sendDecoded_result:
  "sendDecoded compResp c = (r, c') \<Longrightarrow>
   (err r \<noteq> None \<longrightarrow> c' = c) \<and>
   (err r = None \<longrightarrow>
      c' = c\<lparr>Messages := Messages c @ [\<lparr>Role = ''assistant'', Content = reply r\<rparr>],
             Usage := \<lparr>InputTokens = InputTokens (Usage c) + inputTokens r,
                       OutputTokens = OutputTokens (Usage c) + outputTokens r\<rparr>\<rparr>)"
  by (auto simp: sendDecoded_def failed_def Let_def split: list.splits)

lemma sendExchange_result:
  "sendExchange env jsonData c net = (r, c', net') \<Longrightarrow>
   (err r \<noteq> None \<longrightarrow> c' = c) \<and>
   (err r = None \<longrightarrow>
      c' = c\<lparr>Messages := Messages c @ [\<lparr>Role = ''assistant'', Content = reply r\<rparr>],
             Usage := \<lparr>InputTokens = InputTokens (Usage c) + inputTokens r,
                       OutputTokens = OutputTokens (Usage c) + outputTokens r\<rparr>\<rparr>)"
  unfolding sendExchange_def newRequest_def
  by (auto simp: failed_def split: prod.splits option.splits if_splits dest: sendDecoded_result)

lemma sendExchange_net:
  "sendExchange env jsonData c net = (r, c', net') \<Longrightarrow> length net < length net'"
  unfolding sendExchange_def newRequest_def
  by (auto split: prod.splits option.splits if_splits dest: retryLoop_grows)

text \<open>
  C6. The claim: after every failing call of \<open>Send\<close>, the missing credential among the
  failures, the history and the usage are those before the call, except that a non-empty
  input text remains appended as a user turn. \<open>Send\<close> checks the token before it appends
  the input: a call with the input \<open>Hello\<close> that fails on the empty token leaves the
  history as it was, without the user turn.
\<close>

theorem Send_missing_token_counterexample:
  "err (fst (Send (exEnv []) ''Hello'' exSampling ((exConv [])\<lparr>ApiToken := []\<rparr>) []))
     = Some ErrTokenNotSet \<and>
   Messages (fst (snd (Send (exEnv []) ''Hello'' exSampling ((exConv [])\<lparr>ApiToken := []\<rparr>) [])))
     = Messages ((exConv [])\<lparr>ApiToken := []\<rparr>) \<and>
   Messages (fst (snd (Send (exEnv []) ''Hello'' exSampling ((exConv [])\<lparr>ApiToken := []\<rparr>) [])))
     \<noteq> Messages ((exConv [])\<lparr>ApiToken := []\<rparr>) @ [\<lparr>Role = ''user'', Content = ''Hello''\<rparr>]"
  by (simp add: Send_def failed_def exConv_def)

text \<open>
  C6, as amended. After a call of \<open>Send\<close> that returns an error, whatever the error, the
  usage counters are those before the call, and the history is the one before the call,
  except that a non-empty input text stays appended as a user turn when the token is
  set; when the call fails on the missing token the history is unchanged. After a call
  that returns no error, the history is the one before the call, then the user turn of a
  non-empty input, then one assistant turn with the reply, and the usage counters have
  grown by the token counts returned: an assistant turn is appended and the usage grows
  only then. No other field of the conversation changes.
\<close>

theorem Send_history_usage:
  assumes "Send env text sampling c net = (r, c', net')"
  shows "(err r \<noteq> None \<longrightarrow>
            Usage c' = Usage c \<and>
            Messages c' = Messages c @ (if ApiToken c \<noteq> [] \<and> text \<noteq> []
                                        then [\<lparr>Role = ''user'', Content = text\<rparr>] else [])) \<and>
         (err r = None \<longrightarrow>
            Messages c' = Messages c @ (if text \<noteq> [] then [\<lparr>Role = ''user'', Content = text\<rparr>] else [])
                          @ [\<lparr>Role = ''assistant'', Content = reply r\<rparr>] \<and>
            Usage c' = \<lparr>InputTokens = InputTokens (Usage c) + inputTokens r,
                        OutputTokens = OutputTokens (Usage c) + outputTokens r\<rparr>) \<and>
         c' = c\<lparr>Messages := Messages c', Usage := Usage c'\<rparr>"
proof (cases "ApiToken c = [] \<or> (text = [] \<and> Messages c = [])")
  case True
  with assms show ?thesis by (auto simp: Send_def failed_def split: if_splits)
next
  case False
  let ?c1 = "addUserMessage text c"
  have m1: "Messages ?c1 = Messages c @ (if text \<noteq> [] then [\<lparr>Role = ''user'', Content = text\<rparr>] else [])"
    and u1: "Usage ?c1 = Usage c" and r1: "?c1 = c\<lparr>Messages := Messages ?c1\<rparr>"
    by (simp_all add: addUserMessage_def)
  show ?thesis
  proof (cases "Marshal env (sendRequest sampling ?c1)")
    case None
    with False assms have "c' = ?c1" and "err r \<noteq> None"
      by (auto simp: Send_def failed_def Let_def)
    with False m1 u1 r1 show ?thesis by auto
  next
    case (Some jsonData)
    with False assms have "sendExchange env jsonData ?c1 net = (r, c', net')"
      by (auto simp: Send_def Let_def)
    from sendExchange_result [OF this] False m1 u1 r1 show ?thesis
      by (cases "err r") auto
  qed
qed

lemmas ex_defs = exEnv_def exTransport_def bufferedResponse_def streamedResponse_def streamBody_def
  exUnmarshal_def
  decodedResponse_def exConv_def exSettings_def exSampling_def userMsg_def assistantMsg_def

lemmas send_defs = Send_def sendExchange_def sendDecoded_def sendRequest_def addUserMessage_def
  newRequest_def failed_def retries_def normalizeStopReason_def

lemma exSend_status:
  "Send (exEnv [bufferedResponse 500 ''oops'']) ''Hello'' exSampling (exConv []) []
   = (failed (ErrAPIStatus 500 ''oops''), exConv [userMsg ''Hello''],
      [the (newRequest (buildPrompt (exConv [userMsg ''Hello''])) ''test-token'')])"
  by (simp add: ex_defs send_defs retryLoop.simps Let_def)

lemma exSend_refused:
  "Send (exEnv []) ''Hello'' exSampling (exConv []) []
   = (failed (ErrHTTPAfterRetries 3 ''connection refused''), exConv [userMsg ''Hello''],
      replicate 4 (the (newRequest (buildPrompt (exConv [userMsg ''Hello''])) ''test-token'')))"
  by (simp add: ex_defs send_defs retryLoop.simps Let_def numeral_eq_Suc)

lemma exSend_ok:
  "Send (exEnv [bufferedResponse 200 exBody3]) ''Hello'' exSampling (exConv []) []
   = (\<lparr>reply = '' a time.'', stopReason = ''end_turn'', inputTokens = 15, outputTokens = 6,
       err = None\<rparr>,
      (exConv [userMsg ''Hello'', assistantMsg '' a time.''])
        \<lparr>Usage := \<lparr>InputTokens = 15, OutputTokens = 6\<rparr>\<rparr>,
      [the (newRequest (buildPrompt (exConv [userMsg ''Hello''])) ''test-token'')])"
  by (simp add: ex_defs send_defs retryLoop.simps Let_def exBody1_def exBody2_def exBody3_def)

theorem Send_history_usage_witness:
  "err (failed (ErrAPIStatus 500 ''oops'')) \<noteq> None \<and>
   Messages (exConv [userMsg ''Hello'']) = Messages (exConv []) @ [\<lparr>Role = ''user'', Content = ''Hello''\<rparr>] \<and>
   Usage (exConv [userMsg ''Hello'']) = Usage (exConv []) \<and>
   err (failed (ErrHTTPAfterRetries 3 ''connection refused'')) \<noteq> None \<and>
   Messages ((exConv [userMsg ''Hello'', assistantMsg '' a time.''])
               \<lparr>Usage := \<lparr>InputTokens = 15, OutputTokens = 6\<rparr>\<rparr>)
     = Messages (exConv []) @ [\<lparr>Role = ''user'', Content = ''Hello''\<rparr>,
                              \<lparr>Role = ''assistant'', Content = '' a time.''\<rparr>]"
  using Send_history_usage [OF exSend_status] Send_history_usage [OF exSend_refused]
    Send_history_usage [OF exSend_ok]
  by (simp add: failed_def exConv_def)

lemma Send_no_network_call_iff:
  "(snd (snd (Send env text sampling c net)) = net)
     = (ApiToken c = [] \<or> (text = [] \<and> Messages c = []) \<or>
        Marshal env (sendRequest sampling (addUserMessage text c)) = None)"
proof (cases "ApiToken c = [] \<or> (text = [] \<and> Messages c = [])")
  case True
  then show ?thesis by (auto simp: Send_def)
next
  case False
  show ?thesis
  proof (cases "Marshal env (sendRequest sampling (addUserMessage text c))")
    case None
    with False show ?thesis by (auto simp: Send_def Let_def)
  next
    case (Some jsonData)
    with False have s: "Send env text sampling c net
        = sendExchange env jsonData (addUserMessage text c) net"
      by (auto simp: Send_def Let_def)
    obtain r c' net' where e: "sendExchange env jsonData (addUserMessage text c) net = (r, c', net')"
      by (cases "sendExchange env jsonData (addUserMessage text c) net") auto
    from sendExchange_net [OF e] have "net' \<noteq> net" by auto
    with False Some s e show ?thesis by simp
  qed
qed

section \<open>Send under a cancellation signal\<close>

lemma SendWithSignal_not_cancelled:
  "signal \<noteq> Some SignalCancelled \<Longrightarrow>
   SendWithSignal env signal text sampling c net = Send env text sampling c net"
  by (cases signal) (auto simp: SendWithSignal_def split: cancelSignal.split)

lemma exSendWithSignal_cancelled:
  "SendWithSignal (exEnv [bufferedResponse 200 exBody3]) (Some SignalCancelled) ''Hello''
     exSampling (exConv []) []
   = (failed CancellationError, exConv [], [])"
  by (simp add: SendWithSignal_def)

text \<open>
  C7. If the cancellation signal of the caller is already cancelled when \<open>Send\<close> is
  invoked, \<open>Send\<close> returns a \<open>CancellationError\<close> and performs no network call: the
  requests the transport has seen after the call are those it had seen before it,
  whatever the transport, the conversation and the input are. The signal and the
  \<open>Send\<close> that observes it are those modelled from the spec.
\<close>

theorem SendWithSignal_cancelled:
  assumes "SendWithSignal env (Some SignalCancelled) text sampling c net = (r, c', net')"
  shows "err r = Some CancellationError \<and> net' = net"
  using assms by (auto simp: SendWithSignal_def failed_def)

theorem SendWithSignal_cancelled_witness:
  "err (fst (SendWithSignal (exEnv [bufferedResponse 200 exBody3]) (Some SignalCancelled) ''Hello''
               exSampling (exConv []) [])) = Some CancellationError \<and>
   snd (snd (SendWithSignal (exEnv [bufferedResponse 200 exBody3]) (Some SignalCancelled) ''Hello''
               exSampling (exConv []) [])) = [] \<and>
   length (snd (snd (SendWithSignal (exEnv [bufferedResponse 200 exBody3]) (Some SignalActive)
               ''Hello'' exSampling (exConv []) []))) = 1"
  using SendWithSignal_cancelled [OF exSendWithSignal_cancelled]
    SendWithSignal_not_cancelled [of "Some SignalActive" "exEnv [bufferedResponse 200 exBody3]"
      "''Hello''" exSampling "exConv []" "[]"]
  by (simp add: exSendWithSignal_cancelled exSend_ok)

section \<open>Automatic continuation\<close>

lemma sendLoop_error:
  "Send env input sampling c net = (r, c1, net1) \<Longrightarrow> err r = Some e \<Longrightarrow>
   sendLoop env sampling totalReply inToks outToks input c net
     = Some (\<lparr>reply = totalReply, stopReason = stopReason r, inputTokens = inToks,
               outputTokens = outToks, err = Some e\<rparr>, c1, net1)"
  by (subst sendLoop.simps) simp

lemma sendLoop_done:
  "Send env input sampling c net = (r, c1, net1) \<Longrightarrow> err r = None \<Longrightarrow>
   stopReason r \<noteq> ''max_tokens'' \<Longrightarrow>
   sendLoop env sampling totalReply inToks outToks input c net
     = Some (\<lparr>reply = totalReply @ reply r, stopReason = stopReason r,
               inputTokens = inToks + inputTokens r, outputTokens = outToks + outputTokens r,
               err = None\<rparr>, MergeIfLastTwoAssistant c1, net1)"
  by (subst sendLoop.simps) simp

lemma sendLoop_continued:
  "continued env sampling k totalReply inToks outToks input c net
     = Some (totalReply', inToks', outToks', input', c', net') \<Longrightarrow>
   sendLoop env sampling totalReply inToks outToks input c net
     = sendLoop env sampling totalReply' inToks' outToks' input' c' net'"
proof (induction k arbitrary: totalReply inToks outToks input c net)
  case 0
  then show ?case by simp
next
  case (Suc k)
  obtain r c1 net1 where s: "Send env input sampling c net = (r, c1, net1)"
    by (cases "Send env input sampling c net") auto
  with Suc.prems have ok: "err r = None" "stopReason r = ''max_tokens''"
    and rest: "continued env sampling k (totalReply @ reply r) (inToks + inputTokens r)
                 (outToks + outputTokens r) [] (MergeIfLastTwoAssistant c1) net1
               = Some (totalReply', inToks', outToks', input', c', net')"
    by (auto split: if_splits)
  have "sendLoop env sampling totalReply inToks outToks input c net
        = sendLoop env sampling (totalReply @ reply r) (inToks + inputTokens r)
            (outToks + outputTokens r) [] (MergeIfLastTwoAssistant c1) net1"
    using s ok by (subst sendLoop.simps) simp
  with Suc.IH [OF rest] show ?case by simp
qed

lemma continued_input:
  "continued env sampling k totalReply inToks outToks input c net
     = Some (totalReply', inToks', outToks', input', c', net') \<Longrightarrow>
   input' = (if k = 0 then input else [])"
proof (induction k arbitrary: totalReply inToks outToks input c net)
  case 0
  then show ?case by simp
next
  case (Suc k)
  obtain r c1 net1 where s: "Send env input sampling c net = (r, c1, net1)"
    by (cases "Send env input sampling c net") auto
  with Suc.prems have "continued env sampling k (totalReply @ reply r) (inToks + inputTokens r)
                 (outToks + outputTokens r) [] (MergeIfLastTwoAssistant c1) net1
               = Some (totalReply', inToks', outToks', input', c', net')"
    by (auto split: if_splits)
  from Suc.IH [OF this] show ?case by (simp split: if_splits)
qed

lemma Send_answered:
  assumes tok: "ApiToken c \<noteq> []" and ne: "text \<noteq> [] \<or> Messages c \<noteq> []"
    and m: "\<forall>req. Marshal env req \<noteq> None" and a: "answers env (length net) compResp"
    and ch: "Choices compResp = choice # others"
  shows "\<exists>c' httpReq.
           Send env text sampling c net
             = (\<lparr>reply = Text choice, stopReason = normalizeStopReason (FinishReason choice),
                 inputTokens = PromptTokens (RespUsage compResp),
                 outputTokens = CompletionTokens (RespUsage compResp), err = None\<rparr>,
                c', net @ [httpReq]) \<and>
           Messages c' = Messages (AddMessage ''assistant'' (Text choice) (addUserMessage text c)) \<and>
           Usage c' = \<lparr>InputTokens = InputTokens (Usage c) + PromptTokens (RespUsage compResp),
                       OutputTokens = OutputTokens (Usage c) + CompletionTokens (RespUsage compResp)\<rparr> \<and>
           ApiToken c' = ApiToken c"
proof -
  let ?c1 = "addUserMessage text c"
  from m have "Marshal env (sendRequest sampling ?c1) \<noteq> None" by blast
  then obtain jsonData where j: "Marshal env (sendRequest sampling ?c1) = Some jsonData"
    by auto
  obtain httpReq where h: "newRequest jsonData (ApiToken ?c1) = Some httpReq"
    by (simp add: newRequest_def)
  from a obtain resp where rt: "RoundTrip env (length net) httpReq = Inr resp"
    and st: "StatusCode resp = 200" and re: "ReadAllErr (Body resp) = None"
    and um: "Unmarshal env (ReadAllBytes (Body resp)) = Some compResp"
    unfolding answers_def by blast
  have ex: "sendExchange env jsonData ?c1 net
      = (case sendDecoded compResp ?c1 of (r, c2) \<Rightarrow> (r, c2, net @ [httpReq]))"
    unfolding sendExchange_def using h retryLoop_answered [OF rt] st re um by simp
  have "Send env text sampling c net = sendExchange env jsonData ?c1 net"
    using tok ne j by (auto simp: Send_def Let_def)
  with ex ch show ?thesis
    by (simp add: sendDecoded_def Let_def AddMessage_def addUserMessage_def)
qed


lemma Merge_Messages_only:
  "Messages c = Messages d \<Longrightarrow>
   Messages (MergeIfLastTwoAssistant c) = Messages (MergeIfLastTwoAssistant d)"
  by (simp add: MergeIfLastTwoAssistant_def Let_def)

lemma Merge_other_fields:
  "Usage (MergeIfLastTwoAssistant c) = Usage c" "ApiToken (MergeIfLastTwoAssistant c) = ApiToken c"
  by (simp_all add: MergeIfLastTwoAssistant_def Let_def)

lemma Merge_nonempty:
  assumes "Messages c \<noteq> []"
  shows "Messages (MergeIfLastTwoAssistant c) \<noteq> []"
proof (cases "lastTwoAssistant (Messages c)")
  case False
  with assms show ?thesis by (simp add: Merge_unchanged)
next
  case True
  then have "2 \<le> length (Messages c)" by (simp add: lastTwoAssistant_def)
  with Merge_Messages_length [OF True] have "0 < length (Messages (MergeIfLastTwoAssistant c))"
    by arith
  then show ?thesis by simp
qed

lemma SendUntilDone_three:
  assumes tok: "ApiToken c \<noteq> []" and ne: "text \<noteq> [] \<or> Messages c \<noteq> []"
    and m: "\<forall>req. Marshal env req \<noteq> None"
    and a1: "answers env (length net) r1" and a2: "answers env (Suc (length net)) r2"
    and a3: "answers env (Suc (Suc (length net))) r3"
    and ch1: "Choices r1 = ch1 # others1" and ch2: "Choices r2 = ch2 # others2"
    and ch3: "Choices r3 = ch3 # others3"
    and f1: "normalizeStopReason (FinishReason ch1) = ''max_tokens''"
    and f2: "normalizeStopReason (FinishReason ch2) = ''max_tokens''"
    and f3: "normalizeStopReason (FinishReason ch3) \<noteq> ''max_tokens''"
  shows "\<exists>c' net'.
     SendUntilDone env text sampling c net
       = Some (\<lparr>reply = Text ch1 @ Text ch2 @ Text ch3,
                 stopReason = normalizeStopReason (FinishReason ch3),
                 inputTokens = PromptTokens (RespUsage r1) + PromptTokens (RespUsage r2)
                               + PromptTokens (RespUsage r3),
                 outputTokens = CompletionTokens (RespUsage r1) + CompletionTokens (RespUsage r2)
                                + CompletionTokens (RespUsage r3),
                 err = None\<rparr>, c', net') \<and>
     length net' = length net + 3 \<and>
     Messages c' =
       Messages (MergeIfLastTwoAssistant (AddMessage ''assistant'' (Text ch3)
         (MergeIfLastTwoAssistant (AddMessage ''assistant'' (Text ch2)
           (MergeIfLastTwoAssistant (AddMessage ''assistant'' (Text ch1)
             (addUserMessage text c))))))) \<and>
     Usage c' =
       \<lparr>InputTokens = InputTokens (Usage c) + PromptTokens (RespUsage r1)
                       + PromptTokens (RespUsage r2) + PromptTokens (RespUsage r3),
        OutputTokens = OutputTokens (Usage c) + CompletionTokens (RespUsage r1)
                       + CompletionTokens (RespUsage r2) + CompletionTokens (RespUsage r3)\<rparr>"
proof -
  let ?X1 = "AddMessage ''assistant'' (Text ch1) (addUserMessage text c)"
  let ?X2 = "AddMessage ''assistant'' (Text ch2) (MergeIfLastTwoAssistant ?X1)"
  let ?X3 = "AddMessage ''assistant'' (Text ch3) (MergeIfLastTwoAssistant ?X2)"
  let ?R1 = "\<lparr>reply = Text ch1, stopReason = normalizeStopReason (FinishReason ch1),
               inputTokens = PromptTokens (RespUsage r1),
               outputTokens = CompletionTokens (RespUsage r1), err = None\<rparr>"
  let ?R2 = "\<lparr>reply = Text ch2, stopReason = normalizeStopReason (FinishReason ch2),
               inputTokens = PromptTokens (RespUsage r2),
               outputTokens = CompletionTokens (RespUsage r2), err = None\<rparr>"
  let ?R3 = "\<lparr>reply = Text ch3, stopReason = normalizeStopReason (FinishReason ch3),
               inputTokens = PromptTokens (RespUsage r3),
               outputTokens = CompletionTokens (RespUsage r3), err = None\<rparr>"
  from Send_answered [OF tok ne m a1 ch1, of sampling]
  obtain c1 q1 where s1: "Send env text sampling c net = (?R1, c1, net @ [q1])"
    and m1: "Messages c1 = Messages ?X1"
    and u1: "Usage c1 = \<lparr>InputTokens = InputTokens (Usage c) + PromptTokens (RespUsage r1),
                          OutputTokens = OutputTokens (Usage c) + CompletionTokens (RespUsage r1)\<rparr>"
    and t1: "ApiToken c1 = ApiToken c"
    by blast
  let ?d1 = "MergeIfLastTwoAssistant c1"
  have tok1: "ApiToken ?d1 \<noteq> []" using tok t1 by (simp add: Merge_other_fields)
  have "Messages c1 \<noteq> []" using m1 by (simp add: AddMessage_def)
  then have ne1: "[] \<noteq> [] \<or> Messages ?d1 \<noteq> []" by (simp add: Merge_nonempty)
  have a2': "answers env (length (net @ [q1])) r2" using a2 by simp
  from Send_answered [OF tok1 ne1 m a2' ch2, of sampling]
  obtain c2 q2 where s2: "Send env [] sampling ?d1 (net @ [q1]) = (?R2, c2, (net @ [q1]) @ [q2])"
    and m2: "Messages c2 = Messages (AddMessage ''assistant'' (Text ch2) (addUserMessage [] ?d1))"
    and u2: "Usage c2 = \<lparr>InputTokens = InputTokens (Usage ?d1) + PromptTokens (RespUsage r2),
                          OutputTokens = OutputTokens (Usage ?d1) + CompletionTokens (RespUsage r2)\<rparr>"
    and t2: "ApiToken c2 = ApiToken ?d1"
    by blast
  let ?d2 = "MergeIfLastTwoAssistant c2"
  have tok2: "ApiToken ?d2 \<noteq> []" using tok1 t2 by (simp add: Merge_other_fields)
  have "Messages c2 \<noteq> []" using m2 by (simp add: AddMessage_def)
  then have ne2: "[] \<noteq> [] \<or> Messages ?d2 \<noteq> []" by (simp add: Merge_nonempty)
  have a3': "answers env (length ((net @ [q1]) @ [q2])) r3" using a3 by simp
  from Send_answered [OF tok2 ne2 m a3' ch3, of sampling]
  obtain c3 q3 where s3: "Send env [] sampling ?d2 ((net @ [q1]) @ [q2])
        = (?R3, c3, ((net @ [q1]) @ [q2]) @ [q3])"
    and m3: "Messages c3 = Messages (AddMessage ''assistant'' (Text ch3) (addUserMessage [] ?d2))"
    and u3: "Usage c3 = \<lparr>InputTokens = InputTokens (Usage ?d2) + PromptTokens (RespUsage r3),
                          OutputTokens = OutputTokens (Usage ?d2) + CompletionTokens (RespUsage r3)\<rparr>"
    by blast
  have md1: "Messages ?d1 = Messages (MergeIfLastTwoAssistant ?X1)"
    using m1 by (rule Merge_Messages_only)
  have "Messages c2 = Messages ?X2"
    using m2 md1 by (simp add: AddMessage_def addUserMessage_def)
  then have md2: "Messages ?d2 = Messages (MergeIfLastTwoAssistant ?X2)"
    by (rule Merge_Messages_only)
  have "Messages c3 = Messages ?X3"
    using m3 md2 by (simp add: AddMessage_def addUserMessage_def)
  then have md3: "Messages (MergeIfLastTwoAssistant c3) = Messages (MergeIfLastTwoAssistant ?X3)"
    by (rule Merge_Messages_only)
  have us: "Usage (MergeIfLastTwoAssistant c3) =
       \<lparr>InputTokens = InputTokens (Usage c) + PromptTokens (RespUsage r1)
                       + PromptTokens (RespUsage r2) + PromptTokens (RespUsage r3),
        OutputTokens = OutputTokens (Usage c) + CompletionTokens (RespUsage r1)
                       + CompletionTokens (RespUsage r2) + CompletionTokens (RespUsage r3)\<rparr>"
    using u1 u2 u3 by (simp add: Merge_other_fields)
  have k: "continued env sampling 2 [] 0 0 text c net
      = Some (Text ch1 @ Text ch2, PromptTokens (RespUsage r1) + PromptTokens (RespUsage r2),
              CompletionTokens (RespUsage r1) + CompletionTokens (RespUsage r2), [], ?d2,
              (net @ [q1]) @ [q2])"
    using s1 s2 f1 f2 by (simp add: numeral_2_eq_2)
  have "SendUntilDone env text sampling c net
      = Some (\<lparr>reply = (Text ch1 @ Text ch2) @ reply ?R3, stopReason = stopReason ?R3,
                inputTokens = (PromptTokens (RespUsage r1) + PromptTokens (RespUsage r2)) + inputTokens ?R3,
                outputTokens = (CompletionTokens (RespUsage r1) + CompletionTokens (RespUsage r2))
                               + outputTokens ?R3,
                err = None\<rparr>, MergeIfLastTwoAssistant c3, ((net @ [q1]) @ [q2]) @ [q3])"
    unfolding SendUntilDone_def sendLoop_continued [OF k]
    using s3 f3 by (intro sendLoop_done) simp_all
  with md3 us show ?thesis by simp
qed

text \<open>
  C4. First part: the token is set, there is something to send, every request can be
  marshalled, and the next three network calls are answered with completions whose
  first choices have finish reasons that normalise to \<open>max_tokens\<close>, to \<open>max_tokens\<close>
  and to something else (as \<open>max_tokens\<close>, \<open>max_tokens\<close> and \<open>stop\<close> do). Then
  \<open>SendUntilDone\<close> returns; it has made exactly three network calls, one for each call
  of \<open>Send\<close>; the reply is the concatenation of the three texts, the token counts are the
  sums, the stop reason is the third one normalised; and the history is the one obtained
  by appending the user turn of the caller's input (if not empty), then three times an
  assistant turn followed by the merge, with no other user turn.
  Second part, for any number \<open>k\<close> of iterations that have continued: the next call of
  \<open>Send\<close> has the caller's input when \<open>k = 0\<close> and the empty input otherwise; when it
  returns an error, \<open>SendUntilDone\<close> returns that error, with the reply and the token
  counts accumulated over the \<open>k\<close> iterations, and the stop reason, the conversation and
  the network as the failing \<open>Send\<close> left them; when it returns no error and a stop
  reason other than \<open>max_tokens\<close>, \<open>SendUntilDone\<close> returns the accumulated reply
  followed by this reply, the summed token counts and this stop reason, after a last
  merge.
\<close>

theorem SendUntilDone_spec:
  "(ApiToken c \<noteq> [] \<and> (text \<noteq> [] \<or> Messages c \<noteq> []) \<and> (\<forall>req. Marshal env req \<noteq> None) \<and>
    answers env (length net) r1 \<and> answers env (Suc (length net)) r2 \<and>
    answers env (Suc (Suc (length net))) r3 \<and>
    Choices r1 = ch1 # others1 \<and> Choices r2 = ch2 # others2 \<and> Choices r3 = ch3 # others3 \<and>
    normalizeStopReason (FinishReason ch1) = ''max_tokens'' \<and>
    normalizeStopReason (FinishReason ch2) = ''max_tokens'' \<and>
    normalizeStopReason (FinishReason ch3) \<noteq> ''max_tokens''
    \<longrightarrow>
    (\<exists>c' net'.
       SendUntilDone env text sampling c net
         = Some (\<lparr>reply = Text ch1 @ Text ch2 @ Text ch3,
                   stopReason = normalizeStopReason (FinishReason ch3),
                   inputTokens = PromptTokens (RespUsage r1) + PromptTokens (RespUsage r2)
                                 + PromptTokens (RespUsage r3),
                   outputTokens = CompletionTokens (RespUsage r1) + CompletionTokens (RespUsage r2)
                                  + CompletionTokens (RespUsage r3),
                   err = None\<rparr>, c', net') \<and>
       length net' = length net + 3 \<and>
       Messages c' =
         Messages (MergeIfLastTwoAssistant (AddMessage ''assistant'' (Text ch3)
           (MergeIfLastTwoAssistant (AddMessage ''assistant'' (Text ch2)
             (MergeIfLastTwoAssistant (AddMessage ''assistant'' (Text ch1)
               (addUserMessage text c))))))) \<and>
       Usage c' =
         \<lparr>InputTokens = InputTokens (Usage c) + PromptTokens (RespUsage r1)
                         + PromptTokens (RespUsage r2) + PromptTokens (RespUsage r3),
          OutputTokens = OutputTokens (Usage c) + CompletionTokens (RespUsage r1)
                         + CompletionTokens (RespUsage r2) + CompletionTokens (RespUsage r3)\<rparr>)) \<and>
   (continued env sampling k [] 0 0 text c net = Some (totalReply, inToks, outToks, input, ck, netk) \<and>
    Send env input sampling ck netk = (r, cf, netf)
    \<longrightarrow>
    input = (if k = 0 then text else []) \<and>
    (err r \<noteq> None \<longrightarrow>
       SendUntilDone env text sampling c net
         = Some (\<lparr>reply = totalReply, stopReason = stopReason r, inputTokens = inToks,
                   outputTokens = outToks, err = err r\<rparr>, cf, netf)) \<and>
    (err r = None \<and> stopReason r \<noteq> ''max_tokens'' \<longrightarrow>
       SendUntilDone env text sampling c net
         = Some (\<lparr>reply = totalReply @ reply r, stopReason = stopReason r,
                   inputTokens = inToks + inputTokens r, outputTokens = outToks + outputTokens r,
                   err = None\<rparr>, MergeIfLastTwoAssistant cf, netf)))"
proof (intro conjI impI)
  assume h: "ApiToken c \<noteq> [] \<and> (text \<noteq> [] \<or> Messages c \<noteq> []) \<and> (\<forall>req. Marshal env req \<noteq> None) \<and>
    answers env (length net) r1 \<and> answers env (Suc (length net)) r2 \<and>
    answers env (Suc (Suc (length net))) r3 \<and>
    Choices r1 = ch1 # others1 \<and> Choices r2 = ch2 # others2 \<and> Choices r3 = ch3 # others3 \<and>
    normalizeStopReason (FinishReason ch1) = ''max_tokens'' \<and>
    normalizeStopReason (FinishReason ch2) = ''max_tokens'' \<and>
    normalizeStopReason (FinishReason ch3) \<noteq> ''max_tokens''"
  then have "ApiToken c \<noteq> []" "text \<noteq> [] \<or> Messages c \<noteq> []" "\<forall>req. Marshal env req \<noteq> None"
    "answers env (length net) r1" "answers env (Suc (length net)) r2"
    "answers env (Suc (Suc (length net))) r3"
    "Choices r1 = ch1 # others1" "Choices r2 = ch2 # others2" "Choices r3 = ch3 # others3"
    "normalizeStopReason (FinishReason ch1) = ''max_tokens''"
    "normalizeStopReason (FinishReason ch2) = ''max_tokens''"
    "normalizeStopReason (FinishReason ch3) \<noteq> ''max_tokens''"
    by blast+
  then show "\<exists>c' net'.
       SendUntilDone env text sampling c net
         = Some (\<lparr>reply = Text ch1 @ Text ch2 @ Text ch3,
                   stopReason = normalizeStopReason (FinishReason ch3),
                   inputTokens = PromptTokens (RespUsage r1) + PromptTokens (RespUsage r2)
                                 + PromptTokens (RespUsage r3),
                   outputTokens = CompletionTokens (RespUsage r1) + CompletionTokens (RespUsage r2)
                                  + CompletionTokens (RespUsage r3),
                   err = None\<rparr>, c', net') \<and>
       length net' = length net + 3 \<and>
       Messages c' =
         Messages (MergeIfLastTwoAssistant (AddMessage ''assistant'' (Text ch3)
           (MergeIfLastTwoAssistant (AddMessage ''assistant'' (Text ch2)
             (MergeIfLastTwoAssistant (AddMessage ''assistant'' (Text ch1)
               (addUserMessage text c))))))) \<and>
       Usage c' =
         \<lparr>InputTokens = InputTokens (Usage c) + PromptTokens (RespUsage r1)
                         + PromptTokens (RespUsage r2) + PromptTokens (RespUsage r3),
          OutputTokens = OutputTokens (Usage c) + CompletionTokens (RespUsage r1)
                         + CompletionTokens (RespUsage r2) + CompletionTokens (RespUsage r3)\<rparr>"
    by (rule SendUntilDone_three)
next
  assume h: "continued env sampling k [] 0 0 text c net
               = Some (totalReply, inToks, outToks, input, ck, netk) \<and>
             Send env input sampling ck netk = (r, cf, netf)"
  then show "input = (if k = 0 then text else [])"
    using continued_input [of env sampling k "[]" 0 0 "text" c net] by blast
next
  assume h: "continued env sampling k [] 0 0 text c net
               = Some (totalReply, inToks, outToks, input, ck, netk) \<and>
             Send env input sampling ck netk = (r, cf, netf)"
    and e: "err r \<noteq> None"
  from h have k: "continued env sampling k [] 0 0 text c net
               = Some (totalReply, inToks, outToks, input, ck, netk)"
    and s: "Send env input sampling ck netk = (r, cf, netf)"
    by blast+
  from e obtain e' where e': "err r = Some e'" by auto
  show "SendUntilDone env text sampling c net
      = Some (\<lparr>reply = totalReply, stopReason = stopReason r, inputTokens = inToks,
                outputTokens = outToks, err = err r\<rparr>, cf, netf)"
    unfolding SendUntilDone_def sendLoop_continued [OF k] e' using s e' by (rule sendLoop_error)
next
  assume h: "continued env sampling k [] 0 0 text c net
               = Some (totalReply, inToks, outToks, input, ck, netk) \<and>
             Send env input sampling ck netk = (r, cf, netf)"
    and d: "err r = None \<and> stopReason r \<noteq> ''max_tokens''"
  from h have k: "continued env sampling k [] 0 0 text c net
               = Some (totalReply, inToks, outToks, input, ck, netk)"
    and s: "Send env input sampling ck netk = (r, cf, netf)"
    by blast+
  from d have "err r = None" and "stopReason r \<noteq> ''max_tokens''" by blast+
  with s show "SendUntilDone env text sampling c net
      = Some (\<lparr>reply = totalReply @ reply r, stopReason = stopReason r,
                inputTokens = inToks + inputTokens r, outputTokens = outToks + outputTokens r,
                err = None\<rparr>, MergeIfLastTwoAssistant cf, netf)"
    unfolding SendUntilDone_def sendLoop_continued [OF k] by (rule sendLoop_done)
qed

lemmas body_defs = exBody1_def exBody2_def exBody3_def

lemma ex_answers:
  "answers (exEnv exScript3) 0 (decodedResponse ''Once '' ''max_tokens'' 10 4)"
  "answers (exEnv exScript3) (Suc 0) (decodedResponse '' upon'' ''max_tokens'' 12 5)"
  "answers (exEnv exScript3) (Suc (Suc 0)) (decodedResponse '' a time.'' ''stop'' 15 6)"
  by (simp_all add: answers_def exScript3_def ex_defs body_defs)

lemma ex_continued:
  "continued (exEnv exScriptFail) exSampling (Suc 0) [] 0 0 ''Tell me a story'' (exConv []) []
   = Some (''Once '', 10, 4, [],
       (exConv [userMsg ''Tell me a story'', assistantMsg ''Once ''])
         \<lparr>Usage := \<lparr>InputTokens = 10, OutputTokens = 4\<rparr>\<rparr>,
       [the (newRequest (buildPrompt (exConv [userMsg ''Tell me a story''])) ''test-token'')])"
  by (simp add: exScriptFail_def ex_defs send_defs body_defs prompt_defs retryLoop.simps Let_def
      MergeIfLastTwoAssistant_def)

lemma ex_failing_Send:
  "Send (exEnv exScriptFail) [] exSampling
     ((exConv [userMsg ''Tell me a story'', assistantMsg ''Once ''])
         \<lparr>Usage := \<lparr>InputTokens = 10, OutputTokens = 4\<rparr>\<rparr>)
     [the (newRequest (buildPrompt (exConv [userMsg ''Tell me a story''])) ''test-token'')]
   = (failed (ErrAPIStatus 500 ''oops''),
      (exConv [userMsg ''Tell me a story'', assistantMsg ''Once ''])
         \<lparr>Usage := \<lparr>InputTokens = 10, OutputTokens = 4\<rparr>\<rparr>,
      [the (newRequest (buildPrompt (exConv [userMsg ''Tell me a story''])) ''test-token''),
       the (newRequest (buildPrompt (exConv [userMsg ''Tell me a story'', assistantMsg ''Once ''])) ''test-token'')])"
  by (simp add: exScriptFail_def ex_defs send_defs body_defs prompt_defs retryLoop.simps Let_def)

theorem SendUntilDone_spec_witness:
  "(\<exists>c' net'.
      SendUntilDone (exEnv exScript3) ''Tell me a story'' exSampling (exConv []) []
        = Some (\<lparr>reply = ''Once  upon a time.'', stopReason = ''end_turn'', inputTokens = 37,
                  outputTokens = 15, err = None\<rparr>, c', net') \<and>
      length net' = 3 \<and>
      Messages c' = [userMsg ''Tell me a story'', assistantMsg ''Onceupona time.''] \<and>
      Usage c' = \<lparr>InputTokens = 37, OutputTokens = 15\<rparr>) \<and>
   (\<exists>c' net'.
      SendUntilDone (exEnv exScriptFail) ''Tell me a story'' exSampling (exConv []) []
        = Some (\<lparr>reply = ''Once '', stopReason = [], inputTokens = 10, outputTokens = 4,
                  err = Some (ErrAPIStatus 500 ''oops'')\<rparr>, c', net') \<and>
      length net' = 2) \<and>
   (\<exists>c' net'.
      SendUntilDone (exEnv [bufferedResponse 200 exBody3]) ''Hello'' exSampling (exConv []) []
        = Some (\<lparr>reply = '' a time.'', stopReason = ''end_turn'', inputTokens = 15,
                  outputTokens = 6, err = None\<rparr>, c', net') \<and>
      length net' = 1)"
proof (intro conjI)
  have "\<forall>req. Marshal (exEnv exScript3) req \<noteq> None" by (simp add: exEnv_def)
  with ex_answers
    SendUntilDone_spec [THEN conjunct1, of "exConv []" "''Tell me a story''" "exEnv exScript3" "[]"
      "decodedResponse ''Once '' ''max_tokens'' 10 4"
      "decodedResponse '' upon'' ''max_tokens'' 12 5"
      "decodedResponse '' a time.'' ''stop'' 15 6"
      "\<lparr>Index = 0, Text = ''Once '', FinishReason = ''max_tokens''\<rparr>" "[]"
      "\<lparr>Index = 0, Text = '' upon'', FinishReason = ''max_tokens''\<rparr>" "[]"
      "\<lparr>Index = 0, Text = '' a time.'', FinishReason = ''stop''\<rparr>" "[]" exSampling]
  show "\<exists>c' net'.
      SendUntilDone (exEnv exScript3) ''Tell me a story'' exSampling (exConv []) []
        = Some (\<lparr>reply = ''Once  upon a time.'', stopReason = ''end_turn'', inputTokens = 37,
                  outputTokens = 15, err = None\<rparr>, c', net') \<and>
      length net' = 3 \<and>
      Messages c' = [userMsg ''Tell me a story'', assistantMsg ''Onceupona time.''] \<and>
      Usage c' = \<lparr>InputTokens = 37, OutputTokens = 15\<rparr>"
    by (simp add: decodedResponse_def normalizeStopReason_def exConv_def userMsg_def
        assistantMsg_def AddMessage_def addUserMessage_def MergeIfLastTwoAssistant_def Let_def
        TrimRight_def mergeCutset_def TrimSpace_def unicodeSpace_def trimLeftSpace.simps
        spaceWidth_def)
next
  have "err (failed (ErrAPIStatus 500 ''oops'')) \<noteq> None" by (simp add: failed_def)
  with SendUntilDone_spec [THEN conjunct2, rule_format, OF conjI [OF ex_continued ex_failing_Send],
      THEN conjunct2, THEN conjunct1]
  show "\<exists>c' net'.
      SendUntilDone (exEnv exScriptFail) ''Tell me a story'' exSampling (exConv []) []
        = Some (\<lparr>reply = ''Once '', stopReason = [], inputTokens = 10, outputTokens = 4,
                  err = Some (ErrAPIStatus 500 ''oops'')\<rparr>, c', net') \<and>
      length net' = 2"
    by (simp add: failed_def)
next
  have k0: "continued (exEnv [bufferedResponse 200 exBody3]) exSampling 0 [] 0 0 ''Hello''
              (exConv []) [] = Some ([], 0, 0, ''Hello'', exConv [], [])"
    by simp
  from SendUntilDone_spec [THEN conjunct2, rule_format, OF conjI [OF k0 exSend_ok],
      THEN conjunct2, THEN conjunct2]
  show "\<exists>c' net'.
      SendUntilDone (exEnv [bufferedResponse 200 exBody3]) ''Hello'' exSampling (exConv []) []
        = Some (\<lparr>reply = '' a time.'', stopReason = ''end_turn'', inputTokens = 15,
                  outputTokens = 6, err = None\<rparr>, c', net') \<and>
      length net' = 1"
    by simp
qed

section \<open>Stream decoder\<close>




lemmas chunk_defs = exChunk1_def exChunk2_def exChunk3_def exChunk4_def



























section \<open>Streaming send\<close>

lemma sint_go_len: "length s < 2 ^ 63 \<Longrightarrow> sint (go_len s) = int (length s)"
  unfolding go_len_def
  by (simp add: signed_of_nat signed_take_bit_int_eq_self)

lemma go_div_len: 
  assumes "length s < 2 ^ 63"
  shows "go_div (go_len s) 4 = word_of_nat (length s div 4)"
proof -
  have "sint (go_len s) sdiv sint (4 :: go_int) = int (length s) div 4"
    using sint_go_len [OF assms] by (simp add: signed_divide_int_def sgn_if)
  moreover have "int (length s) div 4 = int (length s div 4)" by simp
  ultimately have "sint (go_len s) sdiv sint (4 :: go_int) = int (length s div 4)" by simp
  then show ?thesis unfolding go_div_def by (simp only: of_int_of_nat_eq)
qed

lemma word_of_nat_0_iff: "n < 2 ^ 64 \<Longrightarrow> ((word_of_nat n :: go_int) = 0) = (n = 0)"
  by (simp add: word_of_nat_eq_0_iff dvd_eq_mod_eq_0)

lemma estimateTokens_eq:
  assumes "length s < 2 ^ 63"
  shows "estimateTokens s =
     (if s = [] then 0 else if length s < 4 then 1 else word_of_nat (length s div 4))"
proof -
  from assms have "length s div 4 < 2 ^ 64" by simp
  then have z: "((word_of_nat (length s div 4) :: go_int) = 0) = (length s div 4 = 0)"
    by (rule word_of_nat_0_iff)
  show ?thesis
    using z by (auto simp: estimateTokens_def Let_def go_div_len [OF assms] sint_go_len [OF assms])
qed

lemma streamParsed_result:
  "streamParsed fullText rawReason c = (r, c') \<Longrightarrow>
   err r = None \<and> reply r = fullText \<and> outputTokens r = estimateTokens fullText \<and>
   inputTokens r = 0 \<and>
   Usage c' = (Usage c)\<lparr>OutputTokens := OutputTokens (Usage c) + estimateTokens fullText\<rparr>"
  by (auto simp: streamParsed_def Let_def)

lemma streamExchange_result:
  "streamExchange env jsonData callback u c net = (r, c', net', u') \<Longrightarrow>
   (err r = None \<longrightarrow>
      outputTokens r = estimateTokens (reply r) \<and> inputTokens r = 0 \<and>
      Usage c' = (Usage c)\<lparr>OutputTokens := OutputTokens (Usage c) + estimateTokens (reply r)\<rparr>) \<and>
   (err r \<noteq> None \<longrightarrow> outputTokens r = 0 \<and> inputTokens r = 0 \<and> Usage c' = Usage c)"
  unfolding streamExchange_def newStreamRequest_def
  by (auto simp: failed_def split: prod.splits option.splits if_splits dest!: streamParsed_result)

text \<open>
  C9. The claim: the output-token count of a streaming send is the estimate only when the
  provider supplied no completion-token count, and the provider's count otherwise.
  \<open>SendStreaming\<close> never reads the usage of a chunk: for a stream whose chunk carries
  the usage with 7 completion tokens and the text \<open>Hello, world\<close> (12 bytes), it returns
  3 output tokens.
\<close>

theorem SendStreaming_usage_counterexample:
  \<open>ChunkUsage (the (exUnmarshalChunk
      ''{"choices":[{"text":"Hello, world","finish_reason":"length"}],"usage":{"prompt_tokens":9,"completion_tokens":7}}''))
     = Some \<lparr>PromptTokens = 9, CompletionTokens = 7, TotalTokens = 0\<rparr> \<and>
   fst (SendStreaming
          (exEnv [streamedResponse
             [''data: {"choices":[{"text":"Hello, world","finish_reason":"length"}],"usage":{"prompt_tokens":9,"completion_tokens":7}}'',
              ''data: [DONE]'']])
          ''Hi'' recordCalls [] (exConv []) [])
     = \<lparr>reply = ''Hello, world'', stopReason = ''max_tokens'', inputTokens = 0, outputTokens = 3,
        err = None\<rparr>\<close>
  by (simp add: SendStreaming_def streamExchange_def streamParsed_def streamRequest_def
      newStreamRequest_def addUserMessage_def retryLoop.simps retries_def parseSSEStream_def
      hasDataPrefix_def decodedChunk_def invoke_def recordCalls_def exUnmarshalChunk_def
      chunk_defs ex_defs normalizeStopReason_def estimateTokens_def go_len_def go_div_def
      signed_divide_int_def Let_def)

text \<open>
  C9, as amended. For every streaming send that returns no error, the output-token count
  returned is the estimate computed from the reply alone, whatever usage the chunks of the
  provider carried; the input-token count returned is 0, and the cumulative output usage
  grows by the estimate while the input usage stays. A streaming send that returns an
  error returns zero counts and leaves the usage unchanged. The estimate of a reply is
  its length in bytes divided by 4 and rounded down, and 1 for a non-empty reply of fewer
  than 4 bytes.
\<close>

theorem SendStreaming_output_tokens:
  assumes "SendStreaming env text callback u c net = (r, c', net', u')"
  shows "(err r = None \<longrightarrow>
            outputTokens r = estimateTokens (reply r) \<and> inputTokens r = 0 \<and>
            Usage c' = (Usage c)\<lparr>OutputTokens := OutputTokens (Usage c) + estimateTokens (reply r)\<rparr>) \<and>
         (err r \<noteq> None \<longrightarrow> outputTokens r = 0 \<and> inputTokens r = 0 \<and> Usage c' = Usage c) \<and>
         (length (reply r) < 2 ^ 63 \<longrightarrow>
            estimateTokens (reply r) =
              (if reply r = [] then 0 else if length (reply r) < 4 then 1
               else word_of_nat (length (reply r) div 4)))"
proof -
  have est: "length (reply r) < 2 ^ 63 \<longrightarrow>
            estimateTokens (reply r) =
              (if reply r = [] then 0 else if length (reply r) < 4 then 1
               else word_of_nat (length (reply r) div 4))"
    by (simp add: estimateTokens_eq)
  show ?thesis
  proof (cases "ApiToken c = [] \<or> (text = [] \<and> Messages c = [])")
    case True
    with assms est show ?thesis by (auto simp: SendStreaming_def failed_def split: if_splits)
  next
    case False
    let ?c1 = "addUserMessage text c"
    have u1: "Usage ?c1 = Usage c" by (simp add: addUserMessage_def)
    show ?thesis
    proof (cases "Marshal env (streamRequest ?c1)")
      case None
      with False assms have "c' = ?c1" and "r = failed ErrMarshal"
        by (auto simp: SendStreaming_def Let_def)
      with u1 est show ?thesis by (simp add: failed_def)
    next
      case (Some jsonData)
      with False assms have "streamExchange env jsonData callback u ?c1 net = (r, c', net', u')"
        by (auto simp: SendStreaming_def Let_def)
      from streamExchange_result [OF this] u1 est show ?thesis by simp
    qed
  qed
qed

lemma exSendStreaming:
  \<open>SendStreaming
     (exEnv [streamedResponse
        [''data: {"choices":[{"text":"Hel"}]}'',
         ''data: {"choices":[{"text":"lo","finish_reason":"stop"}]}'', ''data: [DONE]'']])
     ''Hi'' recordCalls [] (exConv []) []
   = (\<lparr>reply = ''Hello'', stopReason = ''end_turn'', inputTokens = 0, outputTokens = 1, err = None\<rparr>,
      (exConv [userMsg ''Hi'', assistantMsg ''Hello''])
        \<lparr>Usage := \<lparr>InputTokens = 0, OutputTokens = 1\<rparr>\<rparr>,
      [the (newStreamRequest (buildPrompt (exConv [userMsg ''Hi''])) ''test-token'')],
      [(''Hel'', False), (''lo'', False), ([], True)])\<close>
  by (simp add: SendStreaming_def streamExchange_def streamParsed_def streamRequest_def
      newStreamRequest_def addUserMessage_def retryLoop.simps retries_def parseSSEStream_def
      hasDataPrefix_def decodedChunk_def invoke_def recordCalls_def exUnmarshalChunk_def
      chunk_defs ex_defs prompt_defs normalizeStopReason_def estimateTokens_def go_len_def
      go_div_def signed_divide_int_def Let_def)

theorem SendStreaming_output_tokens_witness:
  "estimateTokens ''Hello'' = 1 \<and>
   outputTokens \<lparr>reply = ''Hello'', stopReason = ''end_turn'', inputTokens = 0, outputTokens = 1,
                 err = None\<rparr> = estimateTokens ''Hello'' \<and>
   Usage ((exConv [userMsg ''Hi'', assistantMsg ''Hello''])\<lparr>Usage := \<lparr>InputTokens = 0, OutputTokens = 1\<rparr>\<rparr>)
     = (Usage (exConv []))\<lparr>OutputTokens := OutputTokens (Usage (exConv [])) + estimateTokens ''Hello''\<rparr>"
  using SendStreaming_output_tokens [OF exSendStreaming]
  by (simp add: exConv_def)

end
